theory Spec2Isabelle
  imports Main
begin

section \<open>Go values\<close>

text \<open>
  A Go slice is either \<open>nil\<close> or a sequence of elements: \<open>None\<close> is \<open>nil\<close>,
  \<open>Some []\<close> an empty slice that is not \<open>nil\<close>. \<open>len\<close> of \<open>nil\<close> is 0, ranging
  over \<open>nil\<close> visits nothing, and \<open>append(s, t...)\<close> with nothing to add returns \<open>s\<close>
  itself (so \<open>nil\<close> stays \<open>nil\<close>).
\<close>

type_synonym 'a slice = "'a list option"

definition len :: "'a slice \<Rightarrow> nat" where
  "len s = (case s of None \<Rightarrow> 0 | Some xs \<Rightarrow> length xs)"

definition elems :: "'a slice \<Rightarrow> 'a list" where
  "elems s = (case s of None \<Rightarrow> [] | Some xs \<Rightarrow> xs)"

definition append_slice :: "'a slice \<Rightarrow> 'a slice \<Rightarrow> 'a slice" where
  "append_slice s t = (if len t = 0 then s else Some (elems s @ elems t))"

text \<open>
  Go's \<open>error\<close> interface. \<open>ErrorString\<close> is what \<open>errors.New\<close> of the standard library
  builds; \<open>OtherError\<close> stands for any error value a collaborator makes on its own.
  A \<open>nil\<close> error is \<open>None\<close> of \<open>error option\<close>.
\<close>

datatype error = NotFound string | ErrorString string | OtherError string

definition errors_New :: "string \<Rightarrow> error" where
  "errors_New text = ErrorString text"

text \<open>
  \<open>fmt.Sprintf\<close> with the verb \<open>%d\<close> on an \<open>int\<close>: the decimal digits, with a minus sign
  for a negative number. The identifiers of this program are only compared and printed,
  never computed with, so Go's \<open>int\<close> is \<open>int\<close> here.
\<close>

fun digits :: "nat \<Rightarrow> string" where
  "digits n = (if n < 10 then [''0123456789'' ! n]
               else digits (n div 10) @ [''0123456789'' ! (n mod 10)])"

declare digits.simps [simp del]

definition fmt_d :: "int \<Rightarrow> string" where
  "fmt_d i = (if i < 0 then CHR ''-'' # digits (nat (- i)) else digits (nat i))"

text \<open>
  Modelled from the spec: \<open>errors.NewNotFoundf\<close> of this repository's \<open>pkg/errors\<close>, which
  is not among the source files. The spec calls its result "a distinct not-found error";
  the message is the formatted text. The one call site formats with a single \<open>%d\<close> at
  the end of the format string, so the model takes the text before the verb and the number.
\<close>

definition NewNotFoundf :: "string \<Rightarrow> int \<Rightarrow> error" where
  "NewNotFoundf prefix n = NotFound (prefix @ fmt_d n)"

fun is_NotFound :: "error option \<Rightarrow> bool" where
  "is_NotFound (Some (NotFound m)) = True"
| "is_NotFound e = False"

section \<open>The transport\<close>

text \<open>
  The transport client is an external collaborator. Every client method below takes the
  transport call it makes as a function from the request and the transport's state to the
  reply and the new state, so nothing is assumed about it. A scripted transport answers
  the calls from a fixed list of replies, whatever the request, and records the requests
  in order: it makes "the sequence of replies the transport returns" a value. When its
  script is used up it answers \<open>dflt\<close>.
\<close>

record ('req, 'res) scripted =
  replies :: "'res list"
  requests :: "'req list"

definition serve :: "'res \<Rightarrow> 'req \<Rightarrow> ('req, 'res) scripted \<Rightarrow> 'res \<times> ('req, 'res) scripted" where
  "serve dflt req t =
     (case replies t of
        [] \<Rightarrow> (dflt, t\<lparr>requests := requests t @ [req]\<rparr>)
      | r # rs \<Rightarrow> (r, \<lparr>replies = rs, requests = requests t @ [req]\<rparr>))"

section \<open>Package alerts: policies over REST\<close>

text \<open>
  \<open>serialization.EpochTime\<close> is declared outside the source files at hand; the client only
  carries it around, so it is a number here.
\<close>

type_synonym EpochTime = int

type_synonym IncidentPreferenceType = string

record Policy =
  ID :: int
  IncidentPreference :: IncidentPreferenceType
  Name :: string
  CreatedAt :: "EpochTime option"
  UpdatedAt :: "EpochTime option"

record ListPoliciesParams =
  Name :: string

record alertPoliciesResponse =
  Policies :: "Policy slice"

record alertPolicyResponse =
  Policy :: Policy

record alertPolicyRequestBody =
  Policy :: Policy

text \<open>The pager's result; only \<open>Next\<close> is read by the client.\<close>

record Paging =
  Next :: string

text \<open>
  \<open>client.Get(url, &params, &response)\<close> returns the HTTP response and an error and fills
  \<open>response\<close>: the model returns all three. \<open>client.Post\<close> and \<open>client.Put\<close> also take
  the request body, \<open>client.Delete\<close> takes none.
\<close>

type_synonym ('s, 'h, 'q, 'b) Get = "string \<Rightarrow> 'q \<Rightarrow> 's \<Rightarrow> ('h \<times> 'b \<times> error option) \<times> 's"

type_synonym ('s, 'h, 'q, 'r, 'b) Post =
  "string \<Rightarrow> 'q \<Rightarrow> 'r \<Rightarrow> 's \<Rightarrow> ('h \<times> 'b \<times> error option) \<times> 's"

text \<open>
  \<open>ListPolicies\<close>: the loop \<open>for nextURL != ""\<close>. The transport may answer with a next URL
  for ever, so the loop is a partial function: \<open>None\<close> is a loop that never returns.
\<close>

partial_function (option) ListPolicies_loop ::
  "('s, 'h, ListPoliciesParams option, alertPoliciesResponse) Get \<Rightarrow> ('h \<Rightarrow> Paging) \<Rightarrow>
   ListPoliciesParams option \<Rightarrow> string \<Rightarrow> Policy slice \<Rightarrow> 's \<Rightarrow>
   ((Policy slice \<times> error option) \<times> 's) option"
where
  "ListPolicies_loop client_Get pager_Parse params nextURL alertPolicies s =
     (if nextURL \<noteq> '''' then
        (case client_Get nextURL params s of
           ((resp, response, err), s') \<Rightarrow>
             (case err of
                Some e \<Rightarrow> Some ((None, Some e), s')
              | None \<Rightarrow>
                  ListPolicies_loop client_Get pager_Parse params
                    (Next (pager_Parse resp))
                    (append_slice alertPolicies (alertPoliciesResponse.Policies response)) s'))
      else Some ((alertPolicies, None), s))"

definition ListPolicies ::
  "('s, 'h, ListPoliciesParams option, alertPoliciesResponse) Get \<Rightarrow> ('h \<Rightarrow> Paging) \<Rightarrow>
   ListPoliciesParams option \<Rightarrow> 's \<Rightarrow> ((Policy slice \<times> error option) \<times> 's) option"
where
  "ListPolicies client_Get pager_Parse params s =
     ListPolicies_loop client_Get pager_Parse params ''/alerts_policies.json'' (Some []) s"

text \<open>
  \<open>GetPolicy\<close>: the range loop returns a pointer to (a copy of) the first policy whose ID
  is the given one; a pointer is an \<open>option\<close>, \<open>nil\<close> being \<open>None\<close>.
\<close>

fun GetPolicy_range :: "Policy list \<Rightarrow> int \<Rightarrow> Policy option" where
  "GetPolicy_range [] i = None"
| "GetPolicy_range (policy # rest) i =
     (if Policy.ID policy = i then Some policy else GetPolicy_range rest i)"

definition GetPolicy ::
  "('s, 'h, ListPoliciesParams option, alertPoliciesResponse) Get \<Rightarrow> ('h \<Rightarrow> Paging) \<Rightarrow>
   int \<Rightarrow> 's \<Rightarrow> ((Policy option \<times> error option) \<times> 's) option"
where
  "GetPolicy client_Get pager_Parse i s =
     (case ListPolicies client_Get pager_Parse None s of
        None \<Rightarrow> None
      | Some ((policies, err), s') \<Rightarrow>
          Some (case err of
                  Some e \<Rightarrow> ((None, Some e), s')
                | None \<Rightarrow>
                    (case GetPolicy_range (elems policies) i of
                       Some policy \<Rightarrow> ((Some policy, None), s')
                     | None \<Rightarrow>
                         ((None, Some (NewNotFoundf ''no alert policy found for id '' i)), s'))))"

definition CreatePolicy ::
  "('s, 'h, 'q option, alertPolicyRequestBody, alertPolicyResponse) Post \<Rightarrow> Policy \<Rightarrow> 's \<Rightarrow>
   (Policy option \<times> error option) \<times> 's"
where
  "CreatePolicy client_Post policy s =
     (let reqBody = \<lparr>alertPolicyRequestBody.Policy = policy\<rparr> in
      case client_Post ''/alerts_policies.json'' None reqBody s of
        ((_, resp, err), s') \<Rightarrow>
          (case err of
             Some e \<Rightarrow> ((None, Some e), s')
           | None \<Rightarrow> ((Some (alertPolicyResponse.Policy resp), None), s')))"

definition UpdatePolicy ::
  "('s, 'h, 'q option, alertPolicyRequestBody, alertPolicyResponse) Post \<Rightarrow> Policy \<Rightarrow> 's \<Rightarrow>
   (Policy option \<times> error option) \<times> 's"
where
  "UpdatePolicy client_Put policy s =
     (let reqBody = \<lparr>alertPolicyRequestBody.Policy = policy\<rparr>;
          url = ''/alerts_policies/'' @ fmt_d (Policy.ID policy) @ ''.json'' in
      case client_Put url None reqBody s of
        ((_, resp, err), s') \<Rightarrow>
          (case err of
             Some e \<Rightarrow> ((None, Some e), s')
           | None \<Rightarrow> ((Some (alertPolicyResponse.Policy resp), None), s')))"

definition DeletePolicy ::
  "('s, 'h, 'q option, alertPolicyResponse) Get \<Rightarrow> int \<Rightarrow> 's \<Rightarrow>
   (Policy option \<times> error option) \<times> 's"
where
  "DeletePolicy client_Delete i s =
     (let url = ''/alerts_policies/'' @ fmt_d i @ ''.json'' in
      case client_Delete url None s of
        ((_, resp, err), s') \<Rightarrow>
          (case err of
             Some e \<Rightarrow> ((None, Some e), s')
           | None \<Rightarrow> ((Some (alertPolicyResponse.Policy resp), None), s')))"

section \<open>Package alerts: policies over NerdGraph\<close>

record QueryPolicy =
  ID :: int
  IncidentPreference :: IncidentPreferenceType
  Name :: string
  AccountID :: int

text \<open>\<open>QueryPolicy{}\<close>, the zero value.\<close>

definition QueryPolicy_zero :: QueryPolicy where
  "QueryPolicy_zero =
     \<lparr>QueryPolicy.ID = 0, QueryPolicy.IncidentPreference = '''', QueryPolicy.Name = '''',
      AccountID = 0\<rparr>"

record QueryPolicyInput =
  IncidentPreference :: IncidentPreferenceType
  Name :: string

record QueryPolicyCreateInput =
  QueryPolicyInput :: QueryPolicyInput

record QueryPolicyUpdateInput =
  QueryPolicyInput :: QueryPolicyInput

record AlertsPoliciesSearchCriteriaInput =
  IDs :: "int slice"

text \<open>
  The response structs nest anonymous structs; each record below holds the innermost one,
  the fields at \<open>Actor.Account.Alerts.PoliciesSearch\<close>, \<open>Actor.Account.Alerts\<close> and
  \<open>AlertsPolicyDelete\<close>.
\<close>

record alertQueryPolicySearchResponse =
  NextCursor :: "string option"
  Policies :: "QueryPolicy slice"
  TotalCount :: int

record alertQueryPolicyCreateResponse =
  QueryPolicy :: QueryPolicy

record alertQueryPolicyUpdateResponse =
  QueryPolicy :: QueryPolicy

record alertQueryPolicyResponse =
  Policy :: QueryPolicy

record alertQueryPolicyDeleteRespose =
  AlertsPolicyDelete_ID :: int

text \<open>
  The query templates are constants of the source; the client hands them to the transport
  as they are, so each is a name here. The values of the variable map
  (\<open>map[string]interface{}\<close>) are tagged with their Go type.
\<close>

datatype alerts_query =
  alertPolicyQueryPolicy | alertsPolicyQuerySearch | alertsPolicyCreatePolicy
  | alertsPolicyUpdatePolicy | alertPolicyDeletePolicy

datatype alerts_var =
  IntVar int | StringPtrVar "string option"
  | SearchCriteriaVar AlertsPoliciesSearchCriteriaInput
  | CreateInputVar QueryPolicyCreateInput | UpdateInputVar QueryPolicyUpdateInput

text \<open>\<open>client.Query(query, vars, &resp)\<close> returns an error and fills \<open>resp\<close>.\<close>

type_synonym ('s, 'n, 'v, 'b) Query =
  "'n \<Rightarrow> (string \<rightharpoonup> 'v) \<Rightarrow> 's \<Rightarrow> ('b \<times> error option) \<times> 's"

definition CreatePolicyMutation ::
  "('s, alerts_query, alerts_var, alertQueryPolicyCreateResponse) Query \<Rightarrow> int \<Rightarrow>
   QueryPolicyCreateInput \<Rightarrow> 's \<Rightarrow> (QueryPolicy option \<times> error option) \<times> 's"
where
  "CreatePolicyMutation client_Query accountID policy s =
     (let vars = [''accountID'' \<mapsto> IntVar accountID, ''policy'' \<mapsto> CreateInputVar policy] in
      case client_Query alertsPolicyCreatePolicy vars s of
        ((resp, err), s') \<Rightarrow>
          (case err of
             Some e \<Rightarrow> ((None, Some e), s')
           | None \<Rightarrow> ((Some (alertQueryPolicyCreateResponse.QueryPolicy resp), None), s')))"

definition UpdatePolicyMutation ::
  "('s, alerts_query, alerts_var, alertQueryPolicyUpdateResponse) Query \<Rightarrow> int \<Rightarrow> int \<Rightarrow>
   QueryPolicyUpdateInput \<Rightarrow> 's \<Rightarrow> (QueryPolicy option \<times> error option) \<times> 's"
where
  "UpdatePolicyMutation client_Query accountID policyID policy s =
     (let vars = [''accountID'' \<mapsto> IntVar accountID, ''policyID'' \<mapsto> IntVar policyID,
                  ''policy'' \<mapsto> UpdateInputVar policy] in
      case client_Query alertsPolicyUpdatePolicy vars s of
        ((resp, err), s') \<Rightarrow>
          (case err of
             Some e \<Rightarrow> ((None, Some e), s')
           | None \<Rightarrow> ((Some (alertQueryPolicyUpdateResponse.QueryPolicy resp), None), s')))"

definition QueryPolicy ::
  "('s, alerts_query, alerts_var, alertQueryPolicyResponse) Query \<Rightarrow> int \<Rightarrow> int \<Rightarrow> 's \<Rightarrow>
   (QueryPolicy option \<times> error option) \<times> 's"
where
  "QueryPolicy client_Query accountID i s =
     (let vars = [''accountID'' \<mapsto> IntVar accountID, ''policyID'' \<mapsto> IntVar i] in
      case client_Query alertPolicyQueryPolicy vars s of
        ((resp, err), s') \<Rightarrow>
          (case err of
             Some e \<Rightarrow> ((None, Some e), s')
           | None \<Rightarrow> ((Some (alertQueryPolicyResponse.Policy resp), None), s')))"

text \<open>
  \<open>QueryPolicySearch\<close> returns pointers, and takes them from the variable of its range
  loop: \<open>policies = append(policies, &p)\<close>. The source predates Go 1.22 (its build tags
  are of the old \<open>+build\<close> form), where a range loop has one variable for all its
  iterations; so pointers are addresses into a heap of \<open>QueryPolicy\<close> cells (an address
  is an index), one cell is allocated for each run of the range loop, and every iteration
  stores the element in it and appends its address.
\<close>

type_synonym heap = "QueryPolicy list"

fun QueryPolicySearch_range ::
  "QueryPolicy list \<Rightarrow> nat \<Rightarrow> nat slice \<Rightarrow> heap \<Rightarrow> nat slice \<times> heap" where
  "QueryPolicySearch_range [] p policies h = (policies, h)"
| "QueryPolicySearch_range (x # xs) p policies h =
     QueryPolicySearch_range xs p (append_slice policies (Some [p])) (h[p := x])"

definition search_vars ::
  "int \<Rightarrow> string option \<Rightarrow> AlertsPoliciesSearchCriteriaInput \<Rightarrow> (string \<rightharpoonup> alerts_var)" where
  "search_vars accountID nextCursor params =
     [''accountID'' \<mapsto> IntVar accountID, ''cursor'' \<mapsto> StringPtrVar nextCursor,
      ''searchCriteria'' \<mapsto> SearchCriteriaVar params]"

text \<open>
  The loop \<open>for ok := true; ok; ok = nextCursor != nil\<close>. It may run for ever, so it is a
  partial function.
\<close>

partial_function (option) QueryPolicySearch_loop ::
  "('s, alerts_query, alerts_var, alertQueryPolicySearchResponse) Query \<Rightarrow> int \<Rightarrow>
   AlertsPoliciesSearchCriteriaInput \<Rightarrow> bool \<Rightarrow> string option \<Rightarrow> nat slice \<Rightarrow> heap \<Rightarrow> 's \<Rightarrow>
   ((nat slice \<times> error option) \<times> heap \<times> 's) option"
where
  "QueryPolicySearch_loop client_Query accountID params continue nextCursor policies h s =
     (if continue then
        (case client_Query alertsPolicyQuerySearch (search_vars accountID nextCursor params) s of
           ((resp, err), s') \<Rightarrow>
             (case err of
                Some e \<Rightarrow> Some ((None, Some e), h, s')
              | None \<Rightarrow>
                  (case QueryPolicySearch_range
                          (elems (alertQueryPolicySearchResponse.Policies resp))
                          (length h) policies (h @ [QueryPolicy_zero]) of
                     (policies', h') \<Rightarrow>
                       QueryPolicySearch_loop client_Query accountID params
                         (NextCursor resp \<noteq> None) (NextCursor resp) policies' h' s')))
      else Some ((policies, None), h, s))"

definition QueryPolicySearch ::
  "('s, alerts_query, alerts_var, alertQueryPolicySearchResponse) Query \<Rightarrow> int \<Rightarrow>
   AlertsPoliciesSearchCriteriaInput \<Rightarrow> heap \<Rightarrow> 's \<Rightarrow>
   ((nat slice \<times> error option) \<times> heap \<times> 's) option"
where
  "QueryPolicySearch client_Query accountID params h s =
     QueryPolicySearch_loop client_Query accountID params True None (Some []) h s"

definition DeletePolicyMutation ::
  "('s, alerts_query, alerts_var, alertQueryPolicyDeleteRespose) Query \<Rightarrow> int \<Rightarrow> int \<Rightarrow> 's \<Rightarrow>
   (QueryPolicy option \<times> error option) \<times> 's"
where
  "DeletePolicyMutation client_Query accountID i s =
     (let policy = Some QueryPolicy_zero;
          vars = [''accountID'' \<mapsto> IntVar accountID, ''policyID'' \<mapsto> IntVar i] in
      case client_Query alertPolicyDeletePolicy vars s of
        ((resp, err), s') \<Rightarrow>
          (case err of
             Some e \<Rightarrow> ((None, Some e), s')
           | None \<Rightarrow> ((policy, None), s')))"

section \<open>Package apiaccess: keys\<close>

text \<open>
  Modelled from the spec: the types of \<open>types.go\<close> and of \<open>internal/http\<close>, which are not
  among the source files. A key error has a type and a message, both text ("all N
  entries' type and message"); the key types, the input types and the entries of the
  GraphQL \<open>errors\<close> array are type parameters, since the client only passes them on. The
  fields at \<open>Actor.APIAccess\<close> are held directly, and the embedded
  \<open>http.GraphQLErrorResponse\<close> is the field of that name.
\<close>

record ApiAccessKeyError =
  Message :: string
  Type :: string

record 'k ApiAccessCreateKeyResponse =
  CreatedKeys :: "'k slice"
  Errors :: "ApiAccessKeyError slice"

record 'k ApiAccessUpdateKeyResponse =
  UpdatedKeys :: "'k slice"
  Errors :: "ApiAccessKeyError slice"

record 'd ApiAccessDeleteKeyResponse =
  DeletedKeys :: "'d slice"
  Errors :: "ApiAccessKeyError slice"

record 'k ApiAccessKeySearchResult =
  Keys :: "'k slice"

record 'g GraphQLErrorResponse =
  Errors :: "'g slice"

record 'k apiAccessKeyCreateResponse =
  APIAccessCreateKeys :: "'k ApiAccessCreateKeyResponse"

record 'k apiAccessKeyUpdateResponse =
  APIAccessUpdateKeys :: "'k ApiAccessUpdateKeyResponse"

record 'd apiAccessKeyDeleteResponse =
  APIAccessDeleteKeys :: "'d ApiAccessDeleteKeyResponse"

record ('k, 'g) apiAccessKeyGetResponse =
  Key :: 'k
  GraphQLErrorResponse :: "'g GraphQLErrorResponse"

record ('k, 'g) apiAccessKeySearchResponse =
  KeySearch :: "'k ApiAccessKeySearchResult"
  GraphQLErrorResponse :: "'g GraphQLErrorResponse"

datatype apiaccess_query =
  apiAccessKeyCreateKeys | apiAccessKeyGetKey | apiAccessKeySearch | apiAccessKeyUpdateKeys
  | apiAccessKeyDeleteKeys

datatype ('i, 't) apiaccess_var = InputVar 'i | StringVar string | KeyTypeVar 't

text \<open>
  \<open>formatAPIAccessKeyMutationErrors\<close>: the range loop with its accumulator.
  \<open>fmt.Sprintf("%v: %v\n", e.Type, e.Message)\<close> on two texts is the first, a colon and a
  space, the second, and a line feed.
\<close>

definition Sprintf_v_v :: "string \<Rightarrow> string \<Rightarrow> string" where
  "Sprintf_v_v a b = a @ '': '' @ b @ [CHR 0x0A]"

fun formatAPIAccessKeyMutationErrors_range :: "ApiAccessKeyError list \<Rightarrow> string \<Rightarrow> string" where
  "formatAPIAccessKeyMutationErrors_range [] errorString = errorString"
| "formatAPIAccessKeyMutationErrors_range (e # es) errorString =
     formatAPIAccessKeyMutationErrors_range es (errorString @ Sprintf_v_v (Type e) (Message e))"

definition formatAPIAccessKeyMutationErrors :: "ApiAccessKeyError slice \<Rightarrow> string" where
  "formatAPIAccessKeyMutationErrors errors =
     formatAPIAccessKeyMutationErrors_range (elems errors) ''''"

definition CreateAPIAccessKeysMutation ::
  "('s, apiaccess_query, ('i, 't) apiaccess_var, 'k apiAccessKeyCreateResponse) Query \<Rightarrow>
   'i \<Rightarrow> 's \<Rightarrow> ('k slice \<times> error option) \<times> 's"
where
  "CreateAPIAccessKeysMutation client_NerdGraphQuery keys s =
     (let vars = [''keys'' \<mapsto> InputVar keys] in
      case client_NerdGraphQuery apiAccessKeyCreateKeys vars s of
        ((resp, err), s') \<Rightarrow>
          (case err of
             Some e \<Rightarrow> ((None, Some e), s')
           | None \<Rightarrow>
               if len (ApiAccessCreateKeyResponse.Errors (APIAccessCreateKeys resp)) > 0
               then ((None,
                      Some (errors_New (formatAPIAccessKeyMutationErrors
                        (ApiAccessCreateKeyResponse.Errors (APIAccessCreateKeys resp))))), s')
               else ((CreatedKeys (APIAccessCreateKeys resp), None), s')))"

text \<open>
  \<open>resp.Error()\<close> is the method of the embedded \<open>http.GraphQLErrorResponse\<close>, declared
  outside the source files: it is the parameter \<open>Error\<close>.
\<close>

definition GetAPIAccessKeyMutation ::
  "('s, apiaccess_query, ('i, 't) apiaccess_var, ('k, 'g) apiAccessKeyGetResponse) Query \<Rightarrow>
   ('g GraphQLErrorResponse \<Rightarrow> string) \<Rightarrow> string \<Rightarrow> 't \<Rightarrow> 's \<Rightarrow>
   ('k option \<times> error option) \<times> 's"
where
  "GetAPIAccessKeyMutation client_NerdGraphQuery Error keyID keyType s =
     (let vars = [''id'' \<mapsto> StringVar keyID, ''keyType'' \<mapsto> KeyTypeVar keyType] in
      case client_NerdGraphQuery apiAccessKeyGetKey vars s of
        ((resp, err), s') \<Rightarrow>
          (case err of
             Some e \<Rightarrow> ((None, Some e), s')
           | None \<Rightarrow>
               if GraphQLErrorResponse.Errors
                    (apiAccessKeyGetResponse.GraphQLErrorResponse resp) \<noteq> None
               then ((None,
                      Some (errors_New
                        (Error (apiAccessKeyGetResponse.GraphQLErrorResponse resp)))), s')
               else ((Some (Key resp), None), s')))"

definition SearchAPIAccessKeys ::
  "('s, apiaccess_query, ('i, 't) apiaccess_var, ('k, 'g) apiAccessKeySearchResponse) Query \<Rightarrow>
   ('g GraphQLErrorResponse \<Rightarrow> string) \<Rightarrow> 'i \<Rightarrow> 's \<Rightarrow> ('k slice \<times> error option) \<times> 's"
where
  "SearchAPIAccessKeys client_NerdGraphQuery Error params s =
     (let vars = [''query'' \<mapsto> InputVar params] in
      case client_NerdGraphQuery apiAccessKeySearch vars s of
        ((resp, err), s') \<Rightarrow>
          (case err of
             Some e \<Rightarrow> ((None, Some e), s')
           | None \<Rightarrow>
               if GraphQLErrorResponse.Errors
                    (apiAccessKeySearchResponse.GraphQLErrorResponse resp) \<noteq> None
               then ((None,
                      Some (errors_New
                        (Error (apiAccessKeySearchResponse.GraphQLErrorResponse resp)))), s')
               else ((Keys (KeySearch resp), None), s')))"

definition UpdateAPIAccessKeyMutation ::
  "('s, apiaccess_query, ('i, 't) apiaccess_var, 'k apiAccessKeyUpdateResponse) Query \<Rightarrow>
   'i \<Rightarrow> 's \<Rightarrow> ('k slice \<times> error option) \<times> 's"
where
  "UpdateAPIAccessKeyMutation client_NerdGraphQuery keys s =
     (let vars = [''keys'' \<mapsto> InputVar keys] in
      case client_NerdGraphQuery apiAccessKeyUpdateKeys vars s of
        ((resp, err), s') \<Rightarrow>
          (case err of
             Some e \<Rightarrow> ((None, Some e), s')
           | None \<Rightarrow>
               if len (ApiAccessUpdateKeyResponse.Errors (APIAccessUpdateKeys resp)) > 0
               then ((None,
                      Some (errors_New (formatAPIAccessKeyMutationErrors
                        (ApiAccessUpdateKeyResponse.Errors (APIAccessUpdateKeys resp))))), s')
               else ((UpdatedKeys (APIAccessUpdateKeys resp), None), s')))"

definition DeleteAPIAccessKeyMutation ::
  "('s, apiaccess_query, ('i, 't) apiaccess_var, 'd apiAccessKeyDeleteResponse) Query \<Rightarrow>
   'i \<Rightarrow> 's \<Rightarrow> ('d slice \<times> error option) \<times> 's"
where
  "DeleteAPIAccessKeyMutation client_NerdGraphQuery keys s =
     (let vars = [''keys'' \<mapsto> InputVar keys] in
      case client_NerdGraphQuery apiAccessKeyDeleteKeys vars s of
        ((resp, err), s') \<Rightarrow>
          (case err of
             Some e \<Rightarrow> ((None, Some e), s')
           | None \<Rightarrow>
               if len (ApiAccessDeleteKeyResponse.Errors (APIAccessDeleteKeys resp)) > 0
               then ((None,
                      Some (errors_New (formatAPIAccessKeyMutationErrors
                        (ApiAccessDeleteKeyResponse.Errors (APIAccessDeleteKeys resp))))), s')
               else ((DeletedKeys (APIAccessDeleteKeys resp), None), s')))"

section \<open>Scripted transports\<close>

text \<open>The scripted transport as \<open>client.Get\<close>, and a reply that carries no error.\<close>

definition scripted_Get ::
  "('h \<times> 'b \<times> error option) \<Rightarrow>
   ((string \<times> 'q, 'h \<times> 'b \<times> error option) scripted, 'h, 'q, 'b) Get"
where
  "scripted_Get dflt url params t = serve dflt (url, params) t"

definition ok :: "'h \<times> 'b \<Rightarrow> 'h \<times> 'b \<times> error option" where
  "ok p = (fst p, snd p, None)"

definition policies_of :: "('h \<times> alertPoliciesResponse) list \<Rightarrow> Policy list" where
  "policies_of pages = concat (map (\<lambda>p. elems (alertPoliciesResponse.Policies (snd p))) pages)"

text \<open>The scripted transport as \<open>client.Post\<close> and \<open>client.Put\<close>, and as \<open>client.Query\<close>.\<close>

definition scripted_Post ::
  "('h \<times> 'b \<times> error option) \<Rightarrow>
   ((string \<times> 'q \<times> 'r, 'h \<times> 'b \<times> error option) scripted, 'h, 'q, 'r, 'b) Post"
where
  "scripted_Post dflt url params reqBody t = serve dflt (url, params, reqBody) t"

definition scripted_Query ::
  "('b \<times> error option) \<Rightarrow>
   (('n \<times> (string \<rightharpoonup> 'v), 'b \<times> error option) scripted, 'n, 'v, 'b) Query"
where
  "scripted_Query dflt query vars t = serve dflt (query, vars) t"

text \<open>A reply of \<open>client.Query\<close> that carries no error.\<close>

definition answered :: "'b \<Rightarrow> 'b \<times> error option" where
  "answered r = (r, None)"

text \<open>
  What \<open>QueryPolicySearch\<close> leaves behind for a list of pages when the heap has \<open>a\<close>
  cells: page number \<open>k\<close> gets the cell \<open>a + k\<close>, which ends up holding the page's last
  policy (the zero value for a page without policies), and the result holds the address of
  that one cell once for each policy of the page.
\<close>

fun page_pointers :: "nat \<Rightarrow> alertQueryPolicySearchResponse list \<Rightarrow> nat list" where
  "page_pointers a [] = []"
| "page_pointers a (r # rs) =
     replicate (len (alertQueryPolicySearchResponse.Policies r)) a @ page_pointers (Suc a) rs"

definition page_cells :: "alertQueryPolicySearchResponse list \<Rightarrow> QueryPolicy list" where
  "page_cells rs =
     map (\<lambda>r. last (QueryPolicy_zero # elems (alertQueryPolicySearchResponse.Policies r))) rs"

text \<open>
  Values for the examples: policies and pages, a pager that finds the next URL in a
  response that is just that URL, replies of the key operations with keys named by text,
  \<open>joined_messages\<close> in the place of the \<open>Error()\<close> method, and scripted transports of
  fixed types holding one reply.
\<close>

definition policy_named :: "int \<Rightarrow> string \<Rightarrow> Policy" where
  "policy_named i n =
     \<lparr>Policy.ID = i, Policy.IncidentPreference = ''PER_POLICY'', Policy.Name = n,
      CreatedAt = None, UpdatedAt = None\<rparr>"

definition page_of :: "string \<Rightarrow> Policy list \<Rightarrow> string \<times> alertPoliciesResponse" where
  "page_of next_url ps = (next_url, \<lparr>alertPoliciesResponse.Policies = Some ps\<rparr>)"

definition no_reply :: "string \<times> alertPoliciesResponse \<times> error option" where
  "no_reply =
     ('''', \<lparr>alertPoliciesResponse.Policies = None\<rparr>, Some (OtherError ''no reply''))"

definition link_pager :: "string \<Rightarrow> Paging" where
  "link_pager h = \<lparr>Next = h\<rparr>"

definition query_policy :: "int \<Rightarrow> string \<Rightarrow> QueryPolicy" where
  "query_policy i n =
     \<lparr>QueryPolicy.ID = i, QueryPolicy.IncidentPreference = ''PER_CONDITION'',
      QueryPolicy.Name = n, AccountID = 1\<rparr>"

definition cursor_page :: "string option \<Rightarrow> QueryPolicy list \<Rightarrow> alertQueryPolicySearchResponse" where
  "cursor_page c ps =
     \<lparr>NextCursor = c, alertQueryPolicySearchResponse.Policies = Some ps,
      TotalCount = int (length ps)\<rparr>"

definition no_answer :: "alertQueryPolicySearchResponse \<times> error option" where
  "no_answer = (cursor_page None [], Some (OtherError ''no reply''))"

definition all_ids :: AlertsPoliciesSearchCriteriaInput where
  "all_ids = \<lparr>IDs = None\<rparr>"

definition key_error :: "string \<Rightarrow> string \<Rightarrow> ApiAccessKeyError" where
  "key_error t m = \<lparr>Message = m, Type = t\<rparr>"

definition create_reply ::
  "string slice \<Rightarrow> ApiAccessKeyError slice \<Rightarrow> string apiAccessKeyCreateResponse" where
  "create_reply ks errs =
     \<lparr>APIAccessCreateKeys = \<lparr>CreatedKeys = ks, ApiAccessCreateKeyResponse.Errors = errs\<rparr>\<rparr>"

definition update_reply ::
  "string slice \<Rightarrow> ApiAccessKeyError slice \<Rightarrow> string apiAccessKeyUpdateResponse" where
  "update_reply ks errs =
     \<lparr>APIAccessUpdateKeys = \<lparr>UpdatedKeys = ks, ApiAccessUpdateKeyResponse.Errors = errs\<rparr>\<rparr>"

definition delete_reply ::
  "string slice \<Rightarrow> ApiAccessKeyError slice \<Rightarrow> string apiAccessKeyDeleteResponse" where
  "delete_reply ks errs =
     \<lparr>APIAccessDeleteKeys = \<lparr>DeletedKeys = ks, ApiAccessDeleteKeyResponse.Errors = errs\<rparr>\<rparr>"

definition get_reply :: "string \<Rightarrow> string slice \<Rightarrow> (string, string) apiAccessKeyGetResponse" where
  "get_reply k errs =
     \<lparr>Key = k,
      apiAccessKeyGetResponse.GraphQLErrorResponse = \<lparr>GraphQLErrorResponse.Errors = errs\<rparr>\<rparr>"

definition search_reply ::
  "string slice \<Rightarrow> string slice \<Rightarrow> (string, string) apiAccessKeySearchResponse" where
  "search_reply ks errs =
     \<lparr>KeySearch = \<lparr>Keys = ks\<rparr>,
      apiAccessKeySearchResponse.GraphQLErrorResponse = \<lparr>GraphQLErrorResponse.Errors = errs\<rparr>\<rparr>"

definition joined_messages :: "string GraphQLErrorResponse \<Rightarrow> string" where
  "joined_messages r = concat (elems (GraphQLErrorResponse.Errors r))"

definition once :: "'b \<Rightarrow> ('n \<times> (string \<rightharpoonup> 'v), 'b \<times> error option) scripted" where
  "once r = \<lparr>replies = [(r, None)], requests = []\<rparr>"

definition keys_transport ::
  "'b \<Rightarrow>
   ((apiaccess_query \<times> (string \<rightharpoonup> (string, string) apiaccess_var), 'b \<times> error option) scripted,
    apiaccess_query, (string, string) apiaccess_var, 'b) Query"
where
  "keys_transport r = scripted_Query (r, Some (OtherError ''no reply''))"

definition alerts_transport ::
  "'b \<Rightarrow>
   ((alerts_query \<times> (string \<rightharpoonup> alerts_var), 'b \<times> error option) scripted,
    alerts_query, alerts_var, 'b) Query"
where
  "alerts_transport r = scripted_Query (r, Some (OtherError ''no reply''))"

definition rest_transport ::
  "((string \<times> unit option \<times> alertPolicyRequestBody,
     string \<times> alertPolicyResponse \<times> error option) scripted,
    string, unit option, alertPolicyRequestBody, alertPolicyResponse) Post"
where
  "rest_transport =
     scripted_Post ('''', \<lparr>alertPolicyResponse.Policy = policy_named 0 ''''\<rparr>,
                    Some (OtherError ''no reply''))"

section \<open>Properties\<close>

subsection \<open>Listing policies\<close>

lemma append_slice_Some: "append_slice (Some xs) t = Some (xs @ elems t)"
  by (cases t) (simp_all add: append_slice_def len_def elems_def)

lemma serve_Cons:
  "serve dflt req \<lparr>replies = r # rs, requests = l\<rparr> = (r, \<lparr>replies = rs, requests = l @ [req]\<rparr>)"
  by (simp add: serve_def)

lemma ListPolicies_loop_last:
  assumes "Next (pager_Parse h) = ''''" and "u \<noteq> ''''"
  shows "ListPolicies_loop (scripted_Get dflt) pager_Parse params u (Some acc)
           \<lparr>replies = (h, b, None) # rest, requests = l\<rparr> =
         Some ((Some (acc @ elems (alertPoliciesResponse.Policies b)), None),
               \<lparr>replies = rest, requests = l @ [(u, params)]\<rparr>)"
  using assms
  by (subst ListPolicies_loop.simps, subst ListPolicies_loop.simps)
     (simp add: scripted_Get_def serve_Cons append_slice_Some)

lemma ListPolicies_loop_step:
  assumes "u \<noteq> ''''"
  shows "ListPolicies_loop (scripted_Get dflt) pager_Parse params u (Some acc)
           \<lparr>replies = (h, b, None) # later, requests = l\<rparr> =
         ListPolicies_loop (scripted_Get dflt) pager_Parse params (Next (pager_Parse h))
           (Some (acc @ elems (alertPoliciesResponse.Policies b))) \<lparr>replies = later, requests = l @ [(u, params)]\<rparr>"
  using assms
  by (subst ListPolicies_loop.simps)
     (simp add: scripted_Get_def serve_Cons append_slice_Some)

lemma ListPolicies_loop_error:
  assumes "u \<noteq> ''''"
  shows "ListPolicies_loop (scripted_Get dflt) pager_Parse params u acc
           \<lparr>replies = (h, b, Some e) # rest, requests = l\<rparr> =
         Some ((None, Some e), \<lparr>replies = rest, requests = l @ [(u, params)]\<rparr>)"
  using assms
  by (subst ListPolicies_loop.simps) (simp add: scripted_Get_def serve_Cons)

lemma ListPolicies_loop_pages:
  assumes "\<forall>p \<in> set pages. Next (pager_Parse (fst p)) \<noteq> ''''"
      and "Next (pager_Parse (fst final)) = ''''"
      and "u \<noteq> ''''"
  shows "ListPolicies_loop (scripted_Get dflt) pager_Parse params u (Some acc)
           \<lparr>replies = map ok (pages @ [final]) @ rest, requests = l\<rparr> =
         Some ((Some (acc @ policies_of (pages @ [final])), None),
               \<lparr>replies = rest,
                requests = l @ map (\<lambda>v. (v, params))
                                 (u # map (\<lambda>p. Next (pager_Parse (fst p))) pages)\<rparr>)"
  using assms
proof (induction pages arbitrary: u acc l)
  case Nil
  then show ?case
    by (simp add: ok_def policies_of_def ListPolicies_loop_last)
next
  case (Cons p pages)
  have next_url: "Next (pager_Parse (fst p)) \<noteq> ''''"
    using Cons.prems(1) by simp
  have rest_ok: "\<forall>q \<in> set pages. Next (pager_Parse (fst q)) \<noteq> ''''"
    using Cons.prems(1) by simp
  have "ListPolicies_loop (scripted_Get dflt) pager_Parse params u (Some acc)
          \<lparr>replies = map ok ((p # pages) @ [final]) @ rest, requests = l\<rparr> =
        ListPolicies_loop (scripted_Get dflt) pager_Parse params (Next (pager_Parse (fst p)))
          (Some (acc @ elems (alertPoliciesResponse.Policies (snd p))))
          \<lparr>replies = map ok (pages @ [final]) @ rest, requests = l @ [(u, params)]\<rparr>"
    using ListPolicies_loop_step [OF Cons.prems(3)] by (simp add: ok_def)
  also have "\<dots> =
        Some ((Some ((acc @ elems (alertPoliciesResponse.Policies (snd p))) @ policies_of (pages @ [final])), None),
              \<lparr>replies = rest,
               requests = (l @ [(u, params)]) @ map (\<lambda>v. (v, params))
                 (Next (pager_Parse (fst p)) # map (\<lambda>p. Next (pager_Parse (fst p))) pages)\<rparr>)"
    by (rule Cons.IH [OF rest_ok Cons.prems(2) next_url])
  finally show ?case
    by (simp add: policies_of_def)
qed

text \<open>
  C1. Whatever pages the transport returns, \<open>ListPolicies\<close> returns the concatenation of
  the pages' \<open>Policies\<close> in the order served, with a nil error. It asks first for
  \<open>/alerts_policies.json\<close>, then for the \<open>Next\<close> URL the pager reads from each page, and
  stops at the first page whose \<open>Next\<close> is the empty string: replies after it stay unread.
\<close>

theorem ListPolicies_concatenates_pages:
  assumes "\<forall>p \<in> set pages. Next (pager_Parse (fst p)) \<noteq> ''''"
      and "Next (pager_Parse (fst final)) = ''''"
  shows "ListPolicies (scripted_Get dflt) pager_Parse params
           \<lparr>replies = map ok (pages @ [final]) @ rest, requests = []\<rparr> =
         Some ((Some (policies_of (pages @ [final])), None),
               \<lparr>replies = rest,
                requests = map (\<lambda>v. (v, params))
                  (''/alerts_policies.json'' # map (\<lambda>p. Next (pager_Parse (fst p))) pages)\<rparr>)"
  unfolding ListPolicies_def
  using ListPolicies_loop_pages [OF assms, of "''/alerts_policies.json''" dflt params "[]" rest "[]"]
  by simp

theorem ListPolicies_concatenates_pages_witness:
  "ListPolicies (scripted_Get no_reply) link_pager None
     \<lparr>replies = map ok ([page_of ''/alerts_policies.json?page=2''
                                [policy_named 1 ''a'', policy_named 2 ''b'']] @
                             [page_of '''' [policy_named 3 ''c'']]) @
                  [ok (page_of '''' [policy_named 4 ''d''])],
      requests = []\<rparr> =
   Some ((Some [policy_named 1 ''a'', policy_named 2 ''b'', policy_named 3 ''c''], None),
         \<lparr>replies = [ok (page_of '''' [policy_named 4 ''d''])],
          requests = [(''/alerts_policies.json'', None),
                      (''/alerts_policies.json?page=2'', None)]\<rparr>)"
  using ListPolicies_concatenates_pages
    [of "[page_of ''/alerts_policies.json?page=2'' [policy_named 1 ''a'', policy_named 2 ''b'']]"
        link_pager "page_of '''' [policy_named 3 ''c'']" no_reply None
        "[ok (page_of '''' [policy_named 4 ''d''])]"]
  by (simp add: page_of_def link_pager_def policies_of_def elems_def)

subsection \<open>Looking a policy up\<close>

lemma GetPolicy_range_None:
  "GetPolicy_range ps i = None \<longleftrightarrow> (\<forall>p \<in> set ps. Policy.ID p \<noteq> i)"
  by (induction ps) auto

lemma GetPolicy_range_find:
  "GetPolicy_range ps i = find (\<lambda>p. Policy.ID p = i) ps"
  by (induction ps) auto

lemma ListPolicies_scripted:
  assumes "\<forall>p \<in> set pages. Next (pager_Parse (fst p)) \<noteq> ''''"
      and "Next (pager_Parse (fst final)) = ''''"
  shows "ListPolicies (scripted_Get dflt) pager_Parse params
           \<lparr>replies = map ok (pages @ [final]) @ rest, requests = l\<rparr> =
         Some ((Some (policies_of (pages @ [final])), None),
               \<lparr>replies = rest,
                requests = l @ map (\<lambda>v. (v, params))
                  (''/alerts_policies.json'' # map (\<lambda>p. Next (pager_Parse (fst p))) pages)\<rparr>)"
  unfolding ListPolicies_def
  using ListPolicies_loop_pages [OF assms, of "''/alerts_policies.json''" dflt params "[]" rest l]
  by simp

lemma GetPolicy_scripted:
  assumes "\<forall>p \<in> set pages. Next (pager_Parse (fst p)) \<noteq> ''''"
      and "Next (pager_Parse (fst final)) = ''''"
  shows "GetPolicy (scripted_Get dflt) pager_Parse i
           \<lparr>replies = map ok (pages @ [final]) @ rest, requests = l\<rparr> =
         Some ((case GetPolicy_range (policies_of (pages @ [final])) i of
                  Some policy \<Rightarrow> (Some policy, None)
                | None \<Rightarrow> (None, Some (NewNotFoundf ''no alert policy found for id '' i))),
               \<lparr>replies = rest,
                requests = l @ map (\<lambda>v. (v, None))
                  (''/alerts_policies.json'' # map (\<lambda>p. Next (pager_Parse (fst p))) pages)\<rparr>)"
  unfolding GetPolicy_def ListPolicies_scripted [OF assms]
  by (simp add: elems_def split: option.splits)

text \<open>
  C3. When the transport serves a whole listing (pages with a next URL, then one without),
  \<open>GetPolicy\<close> returns; its error is a not-found error exactly when no policy of any page
  has the given ID, and then no policy is returned; when some policy has the ID, a policy
  is returned and the error is nil.
\<close>

theorem GetPolicy_not_found_iff:
  assumes "\<forall>p \<in> set pages. Next (pager_Parse (fst p)) \<noteq> ''''"
      and "Next (pager_Parse (fst final)) = ''''"
  shows "\<exists>policy err t.
           GetPolicy (scripted_Get dflt) pager_Parse i
             \<lparr>replies = map ok (pages @ [final]) @ rest, requests = []\<rparr> =
           Some ((policy, err), t) \<and>
           (is_NotFound err \<longleftrightarrow> (\<forall>p \<in> set (policies_of (pages @ [final])). Policy.ID p \<noteq> i)) \<and>
           (is_NotFound err \<longrightarrow> policy = None) \<and>
           ((\<exists>p \<in> set (policies_of (pages @ [final])). Policy.ID p = i) \<longrightarrow>
              policy \<noteq> None \<and> err = None)"
proof (cases "GetPolicy_range (policies_of (pages @ [final])) i")
  case None
  then have none: "\<forall>p \<in> set (policies_of (pages @ [final])). Policy.ID p \<noteq> i"
    by (simp add: GetPolicy_range_None)
  show ?thesis
    unfolding GetPolicy_scripted [OF assms] None
    using none by (simp add: NewNotFoundf_def)
next
  case (Some policy)
  then have some: "\<exists>p \<in> set (policies_of (pages @ [final])). Policy.ID p = i"
    using GetPolicy_range_None [of "policies_of (pages @ [final])" i] by auto
  show ?thesis
    unfolding GetPolicy_scripted [OF assms] Some
    using some by simp
qed

theorem GetPolicy_not_found_iff_witness:
  "is_NotFound (snd (fst (the (GetPolicy (scripted_Get no_reply) link_pager 5
       \<lparr>replies = map ok ([page_of ''/next'' [policy_named 1 ''a'']] @
                               [page_of '''' [policy_named 2 ''b'']]) @ [],
        requests = []\<rparr>)))) \<and>
   fst (fst (the (GetPolicy (scripted_Get no_reply) link_pager 2
       \<lparr>replies = map ok ([page_of ''/next'' [policy_named 1 ''a'']] @
                               [page_of '''' [policy_named 2 ''b'']]) @ [],
        requests = []\<rparr>))) \<noteq> None"
  using GetPolicy_not_found_iff
    [of "[page_of ''/next'' [policy_named 1 ''a'']]" link_pager
        "page_of '''' [policy_named 2 ''b'']" no_reply 5 "[]"]
    GetPolicy_not_found_iff
    [of "[page_of ''/next'' [policy_named 1 ''a'']]" link_pager
        "page_of '''' [policy_named 2 ''b'']" no_reply 2 "[]"]
  by (auto simp add: page_of_def link_pager_def policies_of_def elems_def policy_named_def)

text \<open>
  C9. When \<open>GetPolicy\<close> returns a policy and a nil error, the policy has the requested ID
  and is the first one with that ID in the listing, the pages taken in the order served:
  a policy of an earlier page wins over one of a later page with the same ID.
\<close>

theorem GetPolicy_first_match:
  assumes "\<forall>p \<in> set pages. Next (pager_Parse (fst p)) \<noteq> ''''"
      and "Next (pager_Parse (fst final)) = ''''"
      and "GetPolicy (scripted_Get dflt) pager_Parse i
             \<lparr>replies = map ok (pages @ [final]) @ rest, requests = []\<rparr> =
           Some ((Some policy, None), t)"
  shows "Policy.ID policy = i \<and>
         find (\<lambda>p. Policy.ID p = i) (policies_of (pages @ [final])) = Some policy"
proof -
  have found: "find (\<lambda>p. Policy.ID p = i) (policies_of (pages @ [final])) = Some policy"
    using assms(3) unfolding GetPolicy_scripted [OF assms(1,2)] GetPolicy_range_find
    by (simp split: option.splits)
  then have "Policy.ID policy = i"
    by (auto simp add: find_Some_iff)
  with found show ?thesis by simp
qed

theorem GetPolicy_first_match_witness:
  "Policy.ID (policy_named 7 ''first'') = 7 \<and>
   find (\<lambda>p. Policy.ID p = 7)
     (policies_of ([page_of ''/next'' [policy_named 1 ''a'', policy_named 7 ''first'']] @
                   [page_of '''' [policy_named 7 ''second'']])) =
   Some (policy_named 7 ''first'')"
proof -
  have listing: "\<forall>p \<in> set [page_of ''/next'' [policy_named 1 ''a'', policy_named 7 ''first'']].
                   Next (link_pager (fst p)) \<noteq> ''''"
    by (simp add: page_of_def link_pager_def)
  have final: "Next (link_pager (fst (page_of '''' [policy_named 7 ''second'']))) = ''''"
    by (simp add: page_of_def link_pager_def)
  have returned: "GetPolicy (scripted_Get no_reply) link_pager 7
      \<lparr>replies = map ok ([page_of ''/next'' [policy_named 1 ''a'', policy_named 7 ''first'']] @
                              [page_of '''' [policy_named 7 ''second'']]) @ [],
       requests = []\<rparr> =
    Some ((Some (policy_named 7 ''first''), None),
          \<lparr>replies = [], requests = [(''/alerts_policies.json'', None), (''/next'', None)]\<rparr>)"
    unfolding GetPolicy_scripted [OF listing final]
    by (simp add: policies_of_def page_of_def elems_def policy_named_def link_pager_def)
  show ?thesis
    by (rule GetPolicy_first_match [OF listing final returned])
qed

subsection \<open>Searching policies by cursor\<close>

lemma QueryPolicySearch_range_eq:
  "p < length h \<Longrightarrow>
   QueryPolicySearch_range xs p (Some acc) h =
     (Some (acc @ replicate (length xs) p), if xs = [] then h else h[p := last xs])"
proof (induction xs arbitrary: acc h)
  case Nil
  then show ?case by simp
next
  case (Cons x xs)
  have "p < length (h[p := x])" using Cons.prems by simp
  from Cons.IH [OF this, of "acc @ [p]"] show ?case
    by (simp add: append_slice_Some elems_def)
qed

lemma QueryPolicySearch_range_page:
  "QueryPolicySearch_range xs (length h) (Some acc) (h @ [QueryPolicy_zero]) =
     (Some (acc @ replicate (length xs) (length h)), h @ [last (QueryPolicy_zero # xs)])"
  by (subst QueryPolicySearch_range_eq) simp_all

lemma len_elems: "len s = length (elems s)"
  by (simp add: len_def elems_def split: option.splits)

lemma QueryPolicySearch_loop_step:
  "QueryPolicySearch_loop (scripted_Query dflt) accountID params True c (Some acc) h
     \<lparr>replies = (r, None) # later, requests = l\<rparr> =
   QueryPolicySearch_loop (scripted_Query dflt) accountID params (NextCursor r \<noteq> None)
     (NextCursor r)
     (Some (acc @ replicate (len (alertQueryPolicySearchResponse.Policies r)) (length h)))
     (h @ [last (QueryPolicy_zero # elems (alertQueryPolicySearchResponse.Policies r))])
     \<lparr>replies = later,
      requests = l @ [(alertsPolicyQuerySearch, search_vars accountID c params)]\<rparr>"
  by (subst QueryPolicySearch_loop.simps)
     (simp add: scripted_Query_def serve_Cons QueryPolicySearch_range_page len_elems)

lemma QueryPolicySearch_loop_stop:
  "QueryPolicySearch_loop client_Query accountID params False c policies h s =
   Some ((policies, None), h, s)"
  by (subst QueryPolicySearch_loop.simps) simp

lemma QueryPolicySearch_loop_error:
  "QueryPolicySearch_loop (scripted_Query dflt) accountID params True c policies h
     \<lparr>replies = (r, Some e) # rest, requests = l\<rparr> =
   Some ((None, Some e), h,
         \<lparr>replies = rest,
          requests = l @ [(alertsPolicyQuerySearch, search_vars accountID c params)]\<rparr>)"
  by (subst QueryPolicySearch_loop.simps) (simp add: scripted_Query_def serve_Cons)

lemma QueryPolicySearch_loop_pages:
  assumes "\<forall>r \<in> set pages. NextCursor r \<noteq> None" and "NextCursor final = None"
  shows "QueryPolicySearch_loop (scripted_Query dflt) accountID params True c (Some acc) h
           \<lparr>replies = map answered (pages @ [final]) @ rest, requests = l\<rparr> =
         Some ((Some (acc @ page_pointers (length h) (pages @ [final])), None),
               h @ page_cells (pages @ [final]),
               \<lparr>replies = rest,
                requests = l @ map (\<lambda>k. (alertsPolicyQuerySearch, search_vars accountID k params))
                                 (c # map NextCursor pages)\<rparr>)"
  using assms
proof (induction pages arbitrary: c acc h l)
  case Nil
  then show ?case
    by (simp add: answered_def QueryPolicySearch_loop_step QueryPolicySearch_loop_stop
        page_cells_def)
next
  case (Cons r pages)
  have cursor: "NextCursor r \<noteq> None"
    using Cons.prems(1) by simp
  have rest_ok: "\<forall>q \<in> set pages. NextCursor q \<noteq> None"
    using Cons.prems(1) by simp
  have "QueryPolicySearch_loop (scripted_Query dflt) accountID params True c (Some acc) h
          \<lparr>replies = map answered ((r # pages) @ [final]) @ rest, requests = l\<rparr> =
        QueryPolicySearch_loop (scripted_Query dflt) accountID params True (NextCursor r)
          (Some (acc @ replicate (len (alertQueryPolicySearchResponse.Policies r)) (length h)))
          (h @ [last (QueryPolicy_zero # elems (alertQueryPolicySearchResponse.Policies r))])
          \<lparr>replies = map answered (pages @ [final]) @ rest,
           requests = l @ [(alertsPolicyQuerySearch, search_vars accountID c params)]\<rparr>"
    using cursor by (simp add: answered_def QueryPolicySearch_loop_step)
  also have "\<dots> =
        Some ((Some ((acc @ replicate (len (alertQueryPolicySearchResponse.Policies r)) (length h)) @
                 page_pointers
                   (length (h @ [last (QueryPolicy_zero #
                       elems (alertQueryPolicySearchResponse.Policies r))]))
                   (pages @ [final])), None),
              (h @ [last (QueryPolicy_zero # elems (alertQueryPolicySearchResponse.Policies r))]) @
                 page_cells (pages @ [final]),
              \<lparr>replies = rest,
               requests = (l @ [(alertsPolicyQuerySearch, search_vars accountID c params)]) @
                 map (\<lambda>k. (alertsPolicyQuerySearch, search_vars accountID k params))
                   (NextCursor r # map NextCursor pages)\<rparr>)"
    by (rule Cons.IH [OF rest_ok Cons.prems(2)])
  finally show ?case
    by (simp add: page_cells_def)
qed

text \<open>
  C2, as amended. When the transport answers with pages whose cursor is not nil and then
  with a page whose cursor is nil, \<open>QueryPolicySearch\<close> returns with a nil error after one
  query for each page: the first query carries a nil cursor, each later one the cursor of
  the page before, and replies after the page with the nil cursor stay unread. Only a nil
  cursor ends the loop.
\<close>

theorem QueryPolicySearch_consumes_cursors:
  assumes "\<forall>r \<in> set pages. NextCursor r \<noteq> None" and "NextCursor final = None"
  shows "QueryPolicySearch (scripted_Query dflt) accountID params h
           \<lparr>replies = map answered (pages @ [final]) @ rest, requests = []\<rparr> =
         Some ((Some (page_pointers (length h) (pages @ [final])), None),
               h @ page_cells (pages @ [final]),
               \<lparr>replies = rest,
                requests = map (\<lambda>k. (alertsPolicyQuerySearch, search_vars accountID k params))
                                 (None # map NextCursor pages)\<rparr>)"
  unfolding QueryPolicySearch_def
  using QueryPolicySearch_loop_pages [OF assms, of dflt accountID params None "[]" h rest "[]"]
  by simp

theorem QueryPolicySearch_consumes_cursors_witness:
  "QueryPolicySearch (scripted_Query no_answer) 1 all_ids []
     \<lparr>replies = map answered
                   ([cursor_page (Some ''c1'') [query_policy 1 ''a'', query_policy 2 ''b'']] @
                    [cursor_page None [query_policy 3 ''c'']]) @
                 [answered (cursor_page None [])],
      requests = []\<rparr> =
   Some ((Some [0, 0, 1], None),
         [query_policy 2 ''b'', query_policy 3 ''c''],
         \<lparr>replies = [answered (cursor_page None [])],
          requests = [(alertsPolicyQuerySearch, search_vars 1 None all_ids),
                      (alertsPolicyQuerySearch, search_vars 1 (Some ''c1'') all_ids)]\<rparr>)"
  using QueryPolicySearch_consumes_cursors
    [of "[cursor_page (Some ''c1'') [query_policy 1 ''a'', query_policy 2 ''b'']]"
        "cursor_page None [query_policy 3 ''c'']" no_answer 1 all_ids "[]"
        "[answered (cursor_page None [])]"]
  by (simp add: cursor_page_def page_cells_def len_def elems_def numeral_2_eq_2)

text \<open>
  The claim as stated lets an empty cursor end the loop. The first reply here carries the
  empty string as its cursor, which is not nil: the loop asks again, with that cursor, and
  reads the second reply too, instead of returning with the second reply unread.
\<close>

theorem QueryPolicySearch_empty_cursor_counterexample:
  "QueryPolicySearch (scripted_Query no_answer) 1 all_ids []
     \<lparr>replies = [answered (cursor_page (Some '''') []), answered (cursor_page None [])],
      requests = []\<rparr> =
   Some ((Some [], None),
         [QueryPolicy_zero, QueryPolicy_zero],
         \<lparr>replies = [],
          requests = [(alertsPolicyQuerySearch, search_vars 1 None all_ids),
                      (alertsPolicyQuerySearch, search_vars 1 (Some '''') all_ids)]\<rparr>) \<and>
   replies (snd (snd (the (QueryPolicySearch (scripted_Query no_answer) 1 all_ids []
     \<lparr>replies = [answered (cursor_page (Some '''') []), answered (cursor_page None [])],
      requests = []\<rparr>)))) \<noteq> [answered (cursor_page None [])]"
  unfolding QueryPolicySearch_def
  by (simp add: answered_def cursor_page_def QueryPolicySearch_loop_step
      QueryPolicySearch_loop_stop len_def elems_def)

subsection \<open>API access keys\<close>

lemma formatAPIAccessKeyMutationErrors_range_eq:
  "formatAPIAccessKeyMutationErrors_range es acc =
     acc @ concat (map (\<lambda>e. Type e @ '': '' @ Message e @ [CHR 0x0A]) es)"
  by (induction es arbitrary: acc) (simp_all add: Sprintf_v_v_def)

lemma formatAPIAccessKeyMutationErrors_eq:
  "formatAPIAccessKeyMutationErrors errs =
     concat (map (\<lambda>e. Type e @ '': '' @ Message e @ [CHR 0x0A]) (elems errs))"
  by (simp add: formatAPIAccessKeyMutationErrors_def formatAPIAccessKeyMutationErrors_range_eq)

lemma Create_errors:
  assumes "client_NerdGraphQuery apiAccessKeyCreateKeys [''keys'' \<mapsto> InputVar keys] s =
             ((resp, None), s')"
      and "0 < len (ApiAccessCreateKeyResponse.Errors (APIAccessCreateKeys resp))"
  shows "CreateAPIAccessKeysMutation client_NerdGraphQuery keys s =
           ((None, Some (ErrorString (concat (map (\<lambda>e. Type e @ '': '' @ Message e @ [CHR 0x0A])
               (elems (ApiAccessCreateKeyResponse.Errors (APIAccessCreateKeys resp))))))), s')"
  using assms
  by (simp add: CreateAPIAccessKeysMutation_def errors_New_def
      formatAPIAccessKeyMutationErrors_eq)

lemma Create_no_errors:
  assumes "client_NerdGraphQuery apiAccessKeyCreateKeys [''keys'' \<mapsto> InputVar keys] s =
             ((resp, None), s')"
      and "len (ApiAccessCreateKeyResponse.Errors (APIAccessCreateKeys resp)) = 0"
  shows "CreateAPIAccessKeysMutation client_NerdGraphQuery keys s =
           ((CreatedKeys (APIAccessCreateKeys resp), None), s')"
  using assms by (simp add: CreateAPIAccessKeysMutation_def)

lemma Update_errors:
  assumes "client_NerdGraphQuery apiAccessKeyUpdateKeys [''keys'' \<mapsto> InputVar keys] s =
             ((resp, None), s')"
      and "0 < len (ApiAccessUpdateKeyResponse.Errors (APIAccessUpdateKeys resp))"
  shows "UpdateAPIAccessKeyMutation client_NerdGraphQuery keys s =
           ((None, Some (ErrorString (concat (map (\<lambda>e. Type e @ '': '' @ Message e @ [CHR 0x0A])
               (elems (ApiAccessUpdateKeyResponse.Errors (APIAccessUpdateKeys resp))))))), s')"
  using assms
  by (simp add: UpdateAPIAccessKeyMutation_def errors_New_def
      formatAPIAccessKeyMutationErrors_eq)

lemma Update_no_errors:
  assumes "client_NerdGraphQuery apiAccessKeyUpdateKeys [''keys'' \<mapsto> InputVar keys] s =
             ((resp, None), s')"
      and "len (ApiAccessUpdateKeyResponse.Errors (APIAccessUpdateKeys resp)) = 0"
  shows "UpdateAPIAccessKeyMutation client_NerdGraphQuery keys s =
           ((UpdatedKeys (APIAccessUpdateKeys resp), None), s')"
  using assms by (simp add: UpdateAPIAccessKeyMutation_def)

lemma Delete_errors:
  assumes "client_NerdGraphQuery apiAccessKeyDeleteKeys [''keys'' \<mapsto> InputVar keys] s =
             ((resp, None), s')"
      and "0 < len (ApiAccessDeleteKeyResponse.Errors (APIAccessDeleteKeys resp))"
  shows "DeleteAPIAccessKeyMutation client_NerdGraphQuery keys s =
           ((None, Some (ErrorString (concat (map (\<lambda>e. Type e @ '': '' @ Message e @ [CHR 0x0A])
               (elems (ApiAccessDeleteKeyResponse.Errors (APIAccessDeleteKeys resp))))))), s')"
  using assms
  by (simp add: DeleteAPIAccessKeyMutation_def errors_New_def
      formatAPIAccessKeyMutationErrors_eq)

lemma Delete_no_errors:
  assumes "client_NerdGraphQuery apiAccessKeyDeleteKeys [''keys'' \<mapsto> InputVar keys] s =
             ((resp, None), s')"
      and "len (ApiAccessDeleteKeyResponse.Errors (APIAccessDeleteKeys resp)) = 0"
  shows "DeleteAPIAccessKeyMutation client_NerdGraphQuery keys s =
           ((DeletedKeys (APIAccessDeleteKeys resp), None), s')"
  using assms by (simp add: DeleteAPIAccessKeyMutation_def)

lemma Get_errors:
  assumes "client_NerdGraphQuery apiAccessKeyGetKey
             [''id'' \<mapsto> StringVar keyID, ''keyType'' \<mapsto> KeyTypeVar keyType] s = ((resp, None), s')"
      and "GraphQLErrorResponse.Errors (apiAccessKeyGetResponse.GraphQLErrorResponse resp) \<noteq> None"
  shows "GetAPIAccessKeyMutation client_NerdGraphQuery Error keyID keyType s =
           ((None, Some (ErrorString
               (Error (apiAccessKeyGetResponse.GraphQLErrorResponse resp)))), s')"
  using assms by (simp add: GetAPIAccessKeyMutation_def errors_New_def)

lemma Get_no_errors:
  assumes "client_NerdGraphQuery apiAccessKeyGetKey
             [''id'' \<mapsto> StringVar keyID, ''keyType'' \<mapsto> KeyTypeVar keyType] s = ((resp, None), s')"
      and "GraphQLErrorResponse.Errors (apiAccessKeyGetResponse.GraphQLErrorResponse resp) = None"
  shows "GetAPIAccessKeyMutation client_NerdGraphQuery Error keyID keyType s =
           ((Some (Key resp), None), s')"
  using assms by (simp add: GetAPIAccessKeyMutation_def)

lemma Search_errors:
  assumes "client_NerdGraphQuery apiAccessKeySearch [''query'' \<mapsto> InputVar params] s =
             ((resp, None), s')"
      and "GraphQLErrorResponse.Errors (apiAccessKeySearchResponse.GraphQLErrorResponse resp) \<noteq> None"
  shows "SearchAPIAccessKeys client_NerdGraphQuery Error params s =
           ((None, Some (ErrorString
               (Error (apiAccessKeySearchResponse.GraphQLErrorResponse resp)))), s')"
  using assms by (simp add: SearchAPIAccessKeys_def errors_New_def)

lemma Search_no_errors:
  assumes "client_NerdGraphQuery apiAccessKeySearch [''query'' \<mapsto> InputVar params] s =
             ((resp, None), s')"
      and "GraphQLErrorResponse.Errors (apiAccessKeySearchResponse.GraphQLErrorResponse resp) = None"
  shows "SearchAPIAccessKeys client_NerdGraphQuery Error params s =
           ((Keys (KeySearch resp), None), s')"
  using assms by (simp add: SearchAPIAccessKeys_def)

lemma scripted_Query_once:
  "scripted_Query dflt q vars (once r) = ((r, None), \<lparr>replies = [], requests = [(q, vars)]\<rparr>)"
  by (simp add: scripted_Query_def once_def serve_Cons)

lemma keys_transport_once:
  "keys_transport d q vars (once r) = ((r, None), \<lparr>replies = [], requests = [(q, vars)]\<rparr>)"
  by (simp add: keys_transport_def scripted_Query_once)

text \<open>
  C4. When the transport succeeds and the mutation's \<open>errors\<close> array has at least one
  entry, each of the key mutations (create, update, delete) returns no keys and one error
  whose message is, for the entries in array order, the entry's type, a colon and a space,
  its message and a line feed.
\<close>

theorem mutation_errors_aggregated:
  "(create_Query apiAccessKeyCreateKeys [''keys'' \<mapsto> InputVar ckeys] sc = ((cresp, None), sc') \<and>
    0 < len (ApiAccessCreateKeyResponse.Errors (APIAccessCreateKeys cresp)) \<longrightarrow>
    CreateAPIAccessKeysMutation create_Query ckeys sc =
      ((None, Some (ErrorString (concat (map (\<lambda>e. Type e @ '': '' @ Message e @ [CHR 0x0A])
          (elems (ApiAccessCreateKeyResponse.Errors (APIAccessCreateKeys cresp))))))), sc')) \<and>
   (update_Query apiAccessKeyUpdateKeys [''keys'' \<mapsto> InputVar ukeys] su = ((uresp, None), su') \<and>
    0 < len (ApiAccessUpdateKeyResponse.Errors (APIAccessUpdateKeys uresp)) \<longrightarrow>
    UpdateAPIAccessKeyMutation update_Query ukeys su =
      ((None, Some (ErrorString (concat (map (\<lambda>e. Type e @ '': '' @ Message e @ [CHR 0x0A])
          (elems (ApiAccessUpdateKeyResponse.Errors (APIAccessUpdateKeys uresp))))))), su')) \<and>
   (delete_Query apiAccessKeyDeleteKeys [''keys'' \<mapsto> InputVar dkeys] sd = ((dresp, None), sd') \<and>
    0 < len (ApiAccessDeleteKeyResponse.Errors (APIAccessDeleteKeys dresp)) \<longrightarrow>
    DeleteAPIAccessKeyMutation delete_Query dkeys sd =
      ((None, Some (ErrorString (concat (map (\<lambda>e. Type e @ '': '' @ Message e @ [CHR 0x0A])
          (elems (ApiAccessDeleteKeyResponse.Errors (APIAccessDeleteKeys dresp))))))), sd'))"
  using Create_errors [of create_Query ckeys sc cresp sc']
    Update_errors [of update_Query ukeys su uresp su']
    Delete_errors [of delete_Query dkeys sd dresp sd']
  by blast

theorem mutation_errors_aggregated_witness:
  "fst (CreateAPIAccessKeysMutation (keys_transport (create_reply None None)) ''in''
     (once (create_reply (Some [''k1''])
        (Some [key_error ''INVALID'' ''bad name'', key_error ''FORBIDDEN'' ''no access''])))) =
     (None, Some (ErrorString (''INVALID: bad name'' @ [CHR 0x0A] @
                               ''FORBIDDEN: no access'' @ [CHR 0x0A]))) \<and>
   fst (UpdateAPIAccessKeyMutation (keys_transport (update_reply None None)) ''in''
     (once (update_reply None (Some [key_error ''NOT_FOUND'' ''no such key''])))) =
     (None, Some (ErrorString (''NOT_FOUND: no such key'' @ [CHR 0x0A]))) \<and>
   fst (DeleteAPIAccessKeyMutation (keys_transport (delete_reply None None)) ''in''
     (once (delete_reply (Some []) (Some [key_error ''NOT_FOUND'' ''gone''])))) =
     (None, Some (ErrorString (''NOT_FOUND: gone'' @ [CHR 0x0A])))"
  using mutation_errors_aggregated
    [of "keys_transport (create_reply None None)" "''in''"
        "once (create_reply (Some [''k1''])
           (Some [key_error ''INVALID'' ''bad name'', key_error ''FORBIDDEN'' ''no access'']))"
        "create_reply (Some [''k1''])
           (Some [key_error ''INVALID'' ''bad name'', key_error ''FORBIDDEN'' ''no access''])"
        "\<lparr>replies = [], requests = [(apiAccessKeyCreateKeys, [''keys'' \<mapsto> InputVar ''in''])]\<rparr>"
        "keys_transport (update_reply None None)" "''in''"
        "once (update_reply None (Some [key_error ''NOT_FOUND'' ''no such key'']))"
        "update_reply None (Some [key_error ''NOT_FOUND'' ''no such key''])"
        "\<lparr>replies = [], requests = [(apiAccessKeyUpdateKeys, [''keys'' \<mapsto> InputVar ''in''])]\<rparr>"
        "keys_transport (delete_reply None None)" "''in''"
        "once (delete_reply (Some []) (Some [key_error ''NOT_FOUND'' ''gone'']))"
        "delete_reply (Some []) (Some [key_error ''NOT_FOUND'' ''gone''])"
        "\<lparr>replies = [], requests = [(apiAccessKeyDeleteKeys, [''keys'' \<mapsto> InputVar ''in''])]\<rparr>"]
  by (simp add: keys_transport_once create_reply_def update_reply_def delete_reply_def
      key_error_def len_def elems_def)

text \<open>
  C8. When the transport succeeds, \<open>GetAPIAccessKeyMutation\<close> and \<open>SearchAPIAccessKeys\<close>
  look at the \<open>Errors\<close> of the embedded GraphQL error response: if it is not nil they
  return no key (no key list) and the error made from the response's \<open>Error()\<close> text; if
  it is nil they return the key (the key list) of the response body and a nil error.
\<close>

theorem graphql_errors_checked:
  "(get_Query apiAccessKeyGetKey [''id'' \<mapsto> StringVar keyID, ''keyType'' \<mapsto> KeyTypeVar keyType] sg =
      ((gresp, None), sg') \<longrightarrow>
    (GraphQLErrorResponse.Errors (apiAccessKeyGetResponse.GraphQLErrorResponse gresp) \<noteq> None \<longrightarrow>
       GetAPIAccessKeyMutation get_Query get_Error keyID keyType sg =
         ((None, Some (ErrorString
             (get_Error (apiAccessKeyGetResponse.GraphQLErrorResponse gresp)))), sg')) \<and>
    (GraphQLErrorResponse.Errors (apiAccessKeyGetResponse.GraphQLErrorResponse gresp) = None \<longrightarrow>
       GetAPIAccessKeyMutation get_Query get_Error keyID keyType sg =
         ((Some (Key gresp), None), sg'))) \<and>
   (search_Query apiAccessKeySearch [''query'' \<mapsto> InputVar params] ss = ((sresp, None), ss') \<longrightarrow>
    (GraphQLErrorResponse.Errors (apiAccessKeySearchResponse.GraphQLErrorResponse sresp) \<noteq> None \<longrightarrow>
       SearchAPIAccessKeys search_Query search_Error params ss =
         ((None, Some (ErrorString
             (search_Error (apiAccessKeySearchResponse.GraphQLErrorResponse sresp)))), ss')) \<and>
    (GraphQLErrorResponse.Errors (apiAccessKeySearchResponse.GraphQLErrorResponse sresp) = None \<longrightarrow>
       SearchAPIAccessKeys search_Query search_Error params ss =
         ((Keys (KeySearch sresp), None), ss')))"
  using Get_errors [of get_Query keyID keyType sg gresp sg' get_Error]
    Get_no_errors [of get_Query keyID keyType sg gresp sg' get_Error]
    Search_errors [of search_Query params ss sresp ss' search_Error]
    Search_no_errors [of search_Query params ss sresp ss' search_Error]
  by blast

theorem graphql_errors_checked_witness:
  "fst (GetAPIAccessKeyMutation (keys_transport (get_reply '''' None)) joined_messages
          ''id1'' ''USER'' (once (get_reply ''key1'' (Some [''boom''])))) =
     (None, Some (ErrorString ''boom'')) \<and>
   fst (GetAPIAccessKeyMutation (keys_transport (get_reply '''' None)) joined_messages
          ''id1'' ''USER'' (once (get_reply ''key1'' None))) =
     (Some ''key1'', None) \<and>
   fst (SearchAPIAccessKeys (keys_transport (search_reply None None)) joined_messages
          ''mine'' (once (search_reply (Some [''key1'']) (Some [''boom''])))) =
     (None, Some (ErrorString ''boom'')) \<and>
   fst (SearchAPIAccessKeys (keys_transport (search_reply None None)) joined_messages
          ''mine'' (once (search_reply (Some [''key1'', ''key2'']) None))) =
     (Some [''key1'', ''key2''], None)"
  using graphql_errors_checked
    [of "keys_transport (get_reply '''' None)" "''id1''" "''USER''"
        "once (get_reply ''key1'' (Some [''boom'']))" "get_reply ''key1'' (Some [''boom''])"
        "\<lparr>replies = [], requests = [(apiAccessKeyGetKey,
            [''id'' \<mapsto> StringVar ''id1'', ''keyType'' \<mapsto> KeyTypeVar ''USER''])]\<rparr>"
        joined_messages
        "keys_transport (search_reply None None)" "''mine''"
        "once (search_reply (Some [''key1'']) (Some [''boom'']))"
        "search_reply (Some [''key1'']) (Some [''boom''])"
        "\<lparr>replies = [], requests = [(apiAccessKeySearch, [''query'' \<mapsto> InputVar ''mine''])]\<rparr>"
        joined_messages]
    graphql_errors_checked
    [of "keys_transport (get_reply '''' None)" "''id1''" "''USER''"
        "once (get_reply ''key1'' None)" "get_reply ''key1'' None"
        "\<lparr>replies = [], requests = [(apiAccessKeyGetKey,
            [''id'' \<mapsto> StringVar ''id1'', ''keyType'' \<mapsto> KeyTypeVar ''USER''])]\<rparr>"
        joined_messages
        "keys_transport (search_reply None None)" "''mine''"
        "once (search_reply (Some [''key1'', ''key2'']) None)"
        "search_reply (Some [''key1'', ''key2'']) None"
        "\<lparr>replies = [], requests = [(apiAccessKeySearch, [''query'' \<mapsto> InputVar ''mine''])]\<rparr>"
        joined_messages]
  by (simp add: keys_transport_once get_reply_def search_reply_def joined_messages_def elems_def)

text \<open>
  C10. The key operations check for API-level errors in two ways. After a successful
  transport call, \<open>GetAPIAccessKeyMutation\<close> and \<open>SearchAPIAccessKeys\<close> return an error
  exactly when \<open>Errors\<close> is not nil, so also for an array that is there and empty; the
  create, update and delete mutations return an error exactly when their \<open>errors\<close> array
  has an entry, and give back the keys with a nil error for an empty array.
\<close>

theorem error_checks_differ:
  "(get_Query apiAccessKeyGetKey [''id'' \<mapsto> StringVar keyID, ''keyType'' \<mapsto> KeyTypeVar keyType] sg =
      ((gresp, None), sg') \<longrightarrow>
    (snd (fst (GetAPIAccessKeyMutation get_Query get_Error keyID keyType sg)) \<noteq> None \<longleftrightarrow>
       GraphQLErrorResponse.Errors (apiAccessKeyGetResponse.GraphQLErrorResponse gresp) \<noteq> None) \<and>
    (GraphQLErrorResponse.Errors (apiAccessKeyGetResponse.GraphQLErrorResponse gresp) = Some [] \<longrightarrow>
       GetAPIAccessKeyMutation get_Query get_Error keyID keyType sg =
         ((None, Some (ErrorString
             (get_Error (apiAccessKeyGetResponse.GraphQLErrorResponse gresp)))), sg'))) \<and>
   (search_Query apiAccessKeySearch [''query'' \<mapsto> InputVar params] ss = ((sresp, None), ss') \<longrightarrow>
    (snd (fst (SearchAPIAccessKeys search_Query search_Error params ss)) \<noteq> None \<longleftrightarrow>
       GraphQLErrorResponse.Errors (apiAccessKeySearchResponse.GraphQLErrorResponse sresp) \<noteq> None) \<and>
    (GraphQLErrorResponse.Errors (apiAccessKeySearchResponse.GraphQLErrorResponse sresp) = Some [] \<longrightarrow>
       SearchAPIAccessKeys search_Query search_Error params ss =
         ((None, Some (ErrorString
             (search_Error (apiAccessKeySearchResponse.GraphQLErrorResponse sresp)))), ss'))) \<and>
   (create_Query apiAccessKeyCreateKeys [''keys'' \<mapsto> InputVar ckeys] sc = ((cresp, None), sc') \<longrightarrow>
    (snd (fst (CreateAPIAccessKeysMutation create_Query ckeys sc)) \<noteq> None \<longleftrightarrow>
       0 < len (ApiAccessCreateKeyResponse.Errors (APIAccessCreateKeys cresp))) \<and>
    (ApiAccessCreateKeyResponse.Errors (APIAccessCreateKeys cresp) = Some [] \<longrightarrow>
       CreateAPIAccessKeysMutation create_Query ckeys sc =
         ((CreatedKeys (APIAccessCreateKeys cresp), None), sc'))) \<and>
   (update_Query apiAccessKeyUpdateKeys [''keys'' \<mapsto> InputVar ukeys] su = ((uresp, None), su') \<longrightarrow>
    (snd (fst (UpdateAPIAccessKeyMutation update_Query ukeys su)) \<noteq> None \<longleftrightarrow>
       0 < len (ApiAccessUpdateKeyResponse.Errors (APIAccessUpdateKeys uresp))) \<and>
    (ApiAccessUpdateKeyResponse.Errors (APIAccessUpdateKeys uresp) = Some [] \<longrightarrow>
       UpdateAPIAccessKeyMutation update_Query ukeys su =
         ((UpdatedKeys (APIAccessUpdateKeys uresp), None), su'))) \<and>
   (delete_Query apiAccessKeyDeleteKeys [''keys'' \<mapsto> InputVar dkeys] sd = ((dresp, None), sd') \<longrightarrow>
    (snd (fst (DeleteAPIAccessKeyMutation delete_Query dkeys sd)) \<noteq> None \<longleftrightarrow>
       0 < len (ApiAccessDeleteKeyResponse.Errors (APIAccessDeleteKeys dresp))) \<and>
    (ApiAccessDeleteKeyResponse.Errors (APIAccessDeleteKeys dresp) = Some [] \<longrightarrow>
       DeleteAPIAccessKeyMutation delete_Query dkeys sd =
         ((DeletedKeys (APIAccessDeleteKeys dresp), None), sd')))"
proof (intro conjI impI)
  assume "get_Query apiAccessKeyGetKey
            [''id'' \<mapsto> StringVar keyID, ''keyType'' \<mapsto> KeyTypeVar keyType] sg = ((gresp, None), sg')"
  then show "snd (fst (GetAPIAccessKeyMutation get_Query get_Error keyID keyType sg)) \<noteq> None \<longleftrightarrow>
       GraphQLErrorResponse.Errors (apiAccessKeyGetResponse.GraphQLErrorResponse gresp) \<noteq> None"
    by (simp add: GetAPIAccessKeyMutation_def)
next
  assume "get_Query apiAccessKeyGetKey
            [''id'' \<mapsto> StringVar keyID, ''keyType'' \<mapsto> KeyTypeVar keyType] sg = ((gresp, None), sg')"
    and "GraphQLErrorResponse.Errors (apiAccessKeyGetResponse.GraphQLErrorResponse gresp) = Some []"
  then show "GetAPIAccessKeyMutation get_Query get_Error keyID keyType sg =
         ((None, Some (ErrorString
             (get_Error (apiAccessKeyGetResponse.GraphQLErrorResponse gresp)))), sg')"
    by (simp add: Get_errors)
next
  assume "search_Query apiAccessKeySearch [''query'' \<mapsto> InputVar params] ss = ((sresp, None), ss')"
  then show "snd (fst (SearchAPIAccessKeys search_Query search_Error params ss)) \<noteq> None \<longleftrightarrow>
       GraphQLErrorResponse.Errors (apiAccessKeySearchResponse.GraphQLErrorResponse sresp) \<noteq> None"
    by (simp add: SearchAPIAccessKeys_def)
next
  assume "search_Query apiAccessKeySearch [''query'' \<mapsto> InputVar params] ss = ((sresp, None), ss')"
    and "GraphQLErrorResponse.Errors (apiAccessKeySearchResponse.GraphQLErrorResponse sresp) = Some []"
  then show "SearchAPIAccessKeys search_Query search_Error params ss =
         ((None, Some (ErrorString
             (search_Error (apiAccessKeySearchResponse.GraphQLErrorResponse sresp)))), ss')"
    by (simp add: Search_errors)
next
  assume "create_Query apiAccessKeyCreateKeys [''keys'' \<mapsto> InputVar ckeys] sc = ((cresp, None), sc')"
  then show "snd (fst (CreateAPIAccessKeysMutation create_Query ckeys sc)) \<noteq> None \<longleftrightarrow>
       0 < len (ApiAccessCreateKeyResponse.Errors (APIAccessCreateKeys cresp))"
    by (simp add: CreateAPIAccessKeysMutation_def)
next
  assume "create_Query apiAccessKeyCreateKeys [''keys'' \<mapsto> InputVar ckeys] sc = ((cresp, None), sc')"
    and "ApiAccessCreateKeyResponse.Errors (APIAccessCreateKeys cresp) = Some []"
  then show "CreateAPIAccessKeysMutation create_Query ckeys sc =
         ((CreatedKeys (APIAccessCreateKeys cresp), None), sc')"
    by (simp add: Create_no_errors len_def)
next
  assume "update_Query apiAccessKeyUpdateKeys [''keys'' \<mapsto> InputVar ukeys] su = ((uresp, None), su')"
  then show "snd (fst (UpdateAPIAccessKeyMutation update_Query ukeys su)) \<noteq> None \<longleftrightarrow>
       0 < len (ApiAccessUpdateKeyResponse.Errors (APIAccessUpdateKeys uresp))"
    by (simp add: UpdateAPIAccessKeyMutation_def)
next
  assume "update_Query apiAccessKeyUpdateKeys [''keys'' \<mapsto> InputVar ukeys] su = ((uresp, None), su')"
    and "ApiAccessUpdateKeyResponse.Errors (APIAccessUpdateKeys uresp) = Some []"
  then show "UpdateAPIAccessKeyMutation update_Query ukeys su =
         ((UpdatedKeys (APIAccessUpdateKeys uresp), None), su')"
    by (simp add: Update_no_errors len_def)
next
  assume "delete_Query apiAccessKeyDeleteKeys [''keys'' \<mapsto> InputVar dkeys] sd = ((dresp, None), sd')"
  then show "snd (fst (DeleteAPIAccessKeyMutation delete_Query dkeys sd)) \<noteq> None \<longleftrightarrow>
       0 < len (ApiAccessDeleteKeyResponse.Errors (APIAccessDeleteKeys dresp))"
    by (simp add: DeleteAPIAccessKeyMutation_def)
next
  assume "delete_Query apiAccessKeyDeleteKeys [''keys'' \<mapsto> InputVar dkeys] sd = ((dresp, None), sd')"
    and "ApiAccessDeleteKeyResponse.Errors (APIAccessDeleteKeys dresp) = Some []"
  then show "DeleteAPIAccessKeyMutation delete_Query dkeys sd =
         ((DeletedKeys (APIAccessDeleteKeys dresp), None), sd')"
    by (simp add: Delete_no_errors len_def)
qed

theorem error_checks_differ_witness:
  "fst (GetAPIAccessKeyMutation (keys_transport (get_reply '''' None)) joined_messages
          ''id1'' ''USER'' (once (get_reply ''key1'' (Some [])))) =
     (None, Some (ErrorString '''')) \<and>
   fst (SearchAPIAccessKeys (keys_transport (search_reply None None)) joined_messages
          ''mine'' (once (search_reply (Some [''key1'']) (Some [])))) =
     (None, Some (ErrorString '''')) \<and>
   fst (CreateAPIAccessKeysMutation (keys_transport (create_reply None None)) ''in''
          (once (create_reply (Some [''key1'']) (Some [])))) = (Some [''key1''], None) \<and>
   fst (UpdateAPIAccessKeyMutation (keys_transport (update_reply None None)) ''in''
          (once (update_reply (Some [''key1'']) (Some [])))) = (Some [''key1''], None) \<and>
   fst (DeleteAPIAccessKeyMutation (keys_transport (delete_reply None None)) ''in''
          (once (delete_reply (Some [''id1'']) (Some [])))) = (Some [''id1''], None)"
  using error_checks_differ
    [of "keys_transport (get_reply '''' None)" "''id1''" "''USER''"
        "once (get_reply ''key1'' (Some []))" "get_reply ''key1'' (Some [])"
        "\<lparr>replies = [], requests = [(apiAccessKeyGetKey,
            [''id'' \<mapsto> StringVar ''id1'', ''keyType'' \<mapsto> KeyTypeVar ''USER''])]\<rparr>"
        joined_messages
        "keys_transport (search_reply None None)" "''mine''"
        "once (search_reply (Some [''key1'']) (Some []))"
        "search_reply (Some [''key1'']) (Some [])"
        "\<lparr>replies = [], requests = [(apiAccessKeySearch, [''query'' \<mapsto> InputVar ''mine''])]\<rparr>"
        joined_messages
        "keys_transport (create_reply None None)" "''in''"
        "once (create_reply (Some [''key1'']) (Some []))"
        "create_reply (Some [''key1'']) (Some [])"
        "\<lparr>replies = [], requests = [(apiAccessKeyCreateKeys, [''keys'' \<mapsto> InputVar ''in''])]\<rparr>"
        "keys_transport (update_reply None None)" "''in''"
        "once (update_reply (Some [''key1'']) (Some []))"
        "update_reply (Some [''key1'']) (Some [])"
        "\<lparr>replies = [], requests = [(apiAccessKeyUpdateKeys, [''keys'' \<mapsto> InputVar ''in''])]\<rparr>"
        "keys_transport (delete_reply None None)" "''in''"
        "once (delete_reply (Some [''id1'']) (Some []))"
        "delete_reply (Some [''id1'']) (Some [])"
        "\<lparr>replies = [], requests = [(apiAccessKeyDeleteKeys, [''keys'' \<mapsto> InputVar ''in''])]\<rparr>"]
  by (simp add: keys_transport_once get_reply_def search_reply_def create_reply_def
      update_reply_def delete_reply_def joined_messages_def elems_def)

subsection \<open>Single policies\<close>

lemma alerts_transport_once:
  "alerts_transport d q vars (once r) = ((r, None), \<lparr>replies = [], requests = [(q, vars)]\<rparr>)"
  by (simp add: alerts_transport_def scripted_Query_once)

text \<open>
  C7. Whatever the transport writes into the response body, \<open>DeletePolicyMutation\<close>
  returns, when the query succeeds, a pointer to the zero \<open>QueryPolicy\<close> and a nil error:
  the \<open>alertsPolicyDelete\<close> ID of the response is not in the result.
\<close>

theorem DeletePolicyMutation_discards_response:
  assumes "client_Query alertPolicyDeletePolicy
             [''accountID'' \<mapsto> IntVar accountID, ''policyID'' \<mapsto> IntVar i] s = ((resp, None), s')"
  shows "DeletePolicyMutation client_Query accountID i s =
           ((Some \<lparr>QueryPolicy.ID = 0, QueryPolicy.IncidentPreference = '''',
                    QueryPolicy.Name = '''', AccountID = 0\<rparr>, None), s')"
  using assms by (simp add: DeletePolicyMutation_def QueryPolicy_zero_def)

theorem DeletePolicyMutation_discards_response_witness:
  "fst (DeletePolicyMutation (alerts_transport \<lparr>AlertsPolicyDelete_ID = 0\<rparr>) 1 42
          (once \<lparr>AlertsPolicyDelete_ID = 42\<rparr>)) =
     (Some \<lparr>QueryPolicy.ID = 0, QueryPolicy.IncidentPreference = '''',
             QueryPolicy.Name = '''', AccountID = 0\<rparr>, None)"
  using DeletePolicyMutation_discards_response
    [of "alerts_transport \<lparr>AlertsPolicyDelete_ID = 0\<rparr>" 1 42
        "once \<lparr>AlertsPolicyDelete_ID = 42\<rparr>" "\<lparr>AlertsPolicyDelete_ID = 42\<rparr>"
        "\<lparr>replies = [], requests = [(alertPolicyDeletePolicy,
            [''accountID'' \<mapsto> IntVar 1, ''policyID'' \<mapsto> IntVar 42])]\<rparr>"]
  by (simp add: alerts_transport_once)

lemma scripted_Post_Cons:
  "scripted_Post dflt url q body \<lparr>replies = r # rs, requests = l\<rparr> =
     (r, \<lparr>replies = rs, requests = l @ [(url, q, body)]\<rparr>)"
  by (simp add: scripted_Post_def serve_Cons)

text \<open>
  C6. \<open>CreatePolicy\<close> and \<open>UpdatePolicy\<close> hand the transport a request body whose
  \<open>Policy\<close> is the input policy, unchanged, and return the \<open>Policy\<close> of the response body,
  unchanged; \<open>CreatePolicy\<close> posts to \<open>/alerts_policies.json\<close>, \<open>UpdatePolicy\<close> puts to
  \<open>/alerts_policies/<ID>.json\<close> with the decimal ID of the input policy. So when the server
  answers with the policy it was sent, up to the ID and the timestamps it assigns, the
  result has the fields that were sent. (Turning the body into JSON is the transport's
  work.)
\<close>

theorem CreatePolicy_UpdatePolicy_round_trip:
  "CreatePolicy (scripted_Post dflt) policy \<lparr>replies = (h, resp, None) # rest, requests = l\<rparr> =
     ((Some (alertPolicyResponse.Policy resp), None),
      \<lparr>replies = rest,
       requests = l @ [(''/alerts_policies.json'', None,
                        \<lparr>alertPolicyRequestBody.Policy = policy\<rparr>)]\<rparr>) \<and>
   UpdatePolicy (scripted_Post dflt) policy \<lparr>replies = (h, resp, None) # rest, requests = l\<rparr> =
     ((Some (alertPolicyResponse.Policy resp), None),
      \<lparr>replies = rest,
       requests = l @ [(''/alerts_policies/'' @ fmt_d (Policy.ID policy) @ ''.json'', None,
                        \<lparr>alertPolicyRequestBody.Policy = policy\<rparr>)]\<rparr>) \<and>
   fst (CreatePolicy (scripted_Post dflt) policy
     \<lparr>replies = (h, \<lparr>alertPolicyResponse.Policy =
                          policy\<lparr>Policy.ID := new_id, CreatedAt := created, UpdatedAt := updated\<rparr>\<rparr>,
                   None) # rest,
      requests = l\<rparr>) =
     (Some (policy\<lparr>Policy.ID := new_id, CreatedAt := created, UpdatedAt := updated\<rparr>), None) \<and>
   fst (UpdatePolicy (scripted_Post dflt) policy
     \<lparr>replies = (h, \<lparr>alertPolicyResponse.Policy = policy\<lparr>UpdatedAt := updated\<rparr>\<rparr>, None) # rest,
      requests = l\<rparr>) =
     (Some (policy\<lparr>UpdatedAt := updated\<rparr>), None)"
  by (simp add: CreatePolicy_def UpdatePolicy_def scripted_Post_Cons)

theorem CreatePolicy_UpdatePolicy_round_trip_witness:
  "CreatePolicy rest_transport (policy_named 0 ''cpu'')
     \<lparr>replies = [(''201'', \<lparr>alertPolicyResponse.Policy = policy_named 42 ''cpu''\<rparr>, None)],
      requests = []\<rparr> =
     ((Some (policy_named 42 ''cpu''), None),
      \<lparr>replies = [],
       requests = [(''/alerts_policies.json'', None,
                    \<lparr>alertPolicyRequestBody.Policy = policy_named 0 ''cpu''\<rparr>)]\<rparr>) \<and>
   UpdatePolicy rest_transport (policy_named 42 ''disk'')
     \<lparr>replies = [(''200'', \<lparr>alertPolicyResponse.Policy = policy_named 42 ''disk''\<rparr>, None)],
      requests = []\<rparr> =
     ((Some (policy_named 42 ''disk''), None),
      \<lparr>replies = [],
       requests = [(''/alerts_policies/42.json'', None,
                    \<lparr>alertPolicyRequestBody.Policy = policy_named 42 ''disk''\<rparr>)]\<rparr>)"
  using CreatePolicy_UpdatePolicy_round_trip
    [of "('''', \<lparr>alertPolicyResponse.Policy = policy_named 0 ''''\<rparr>, Some (OtherError ''no reply''))"
        "policy_named 0 ''cpu''" "''201''"
        "\<lparr>alertPolicyResponse.Policy = policy_named 42 ''cpu''\<rparr>" "[]"
        "[] :: (string \<times> unit option \<times> alertPolicyRequestBody) list"]
    CreatePolicy_UpdatePolicy_round_trip
    [of "('''', \<lparr>alertPolicyResponse.Policy = policy_named 0 ''''\<rparr>, Some (OtherError ''no reply''))"
        "policy_named 42 ''disk''" "''200''"
        "\<lparr>alertPolicyResponse.Policy = policy_named 42 ''disk''\<rparr>" "[]"
        "[] :: (string \<times> unit option \<times> alertPolicyRequestBody) list"]
  by (simp add: rest_transport_def fmt_d_def digits.simps policy_named_def)

subsection \<open>Transport errors\<close>

lemma scripted_Get_Cons:
  "scripted_Get dflt url q \<lparr>replies = r # rs, requests = l\<rparr> =
     (r, \<lparr>replies = rs, requests = l @ [(url, q)]\<rparr>)"
  by (simp add: scripted_Get_def serve_Cons)

lemma scripted_Query_Cons:
  "scripted_Query dflt q vars \<lparr>replies = r # rs, requests = l\<rparr> =
     (r, \<lparr>replies = rs, requests = l @ [(q, vars)]\<rparr>)"
  by (simp add: scripted_Query_def serve_Cons)

lemma ListPolicies_loop_pages_error:
  assumes "\<forall>p \<in> set pages. Next (pager_Parse (fst p)) \<noteq> ''''" and "u \<noteq> ''''"
  shows "ListPolicies_loop (scripted_Get dflt) pager_Parse params u (Some acc)
           \<lparr>replies = map ok pages @ (h, b, Some e) # rest, requests = l\<rparr> =
         Some ((None, Some e),
               \<lparr>replies = rest,
                requests = l @ map (\<lambda>v. (v, params))
                                 (u # map (\<lambda>p. Next (pager_Parse (fst p))) pages)\<rparr>)"
  using assms
proof (induction pages arbitrary: u acc l)
  case Nil
  then show ?case by (simp add: ListPolicies_loop_error)
next
  case (Cons p pages)
  have next_url: "Next (pager_Parse (fst p)) \<noteq> ''''"
    using Cons.prems(1) by simp
  have rest_ok: "\<forall>q \<in> set pages. Next (pager_Parse (fst q)) \<noteq> ''''"
    using Cons.prems(1) by simp
  have "ListPolicies_loop (scripted_Get dflt) pager_Parse params u (Some acc)
          \<lparr>replies = map ok (p # pages) @ (h, b, Some e) # rest, requests = l\<rparr> =
        ListPolicies_loop (scripted_Get dflt) pager_Parse params (Next (pager_Parse (fst p)))
          (Some (acc @ elems (alertPoliciesResponse.Policies (snd p))))
          \<lparr>replies = map ok pages @ (h, b, Some e) # rest, requests = l @ [(u, params)]\<rparr>"
    using ListPolicies_loop_step [OF Cons.prems(2)] by (simp add: ok_def)
  also have "\<dots> =
        Some ((None, Some e),
              \<lparr>replies = rest,
               requests = (l @ [(u, params)]) @ map (\<lambda>v. (v, params))
                 (Next (pager_Parse (fst p)) # map (\<lambda>p. Next (pager_Parse (fst p))) pages)\<rparr>)"
    by (rule Cons.IH [OF rest_ok next_url])
  finally show ?case by simp
qed

lemma ListPolicies_scripted_error:
  assumes "\<forall>p \<in> set pages. Next (pager_Parse (fst p)) \<noteq> ''''"
  shows "ListPolicies (scripted_Get dflt) pager_Parse params
           \<lparr>replies = map ok pages @ (h, b, Some e) # rest, requests = l\<rparr> =
         Some ((None, Some e),
               \<lparr>replies = rest,
                requests = l @ map (\<lambda>v. (v, params))
                  (''/alerts_policies.json'' # map (\<lambda>p. Next (pager_Parse (fst p))) pages)\<rparr>)"
  unfolding ListPolicies_def
  by (rule ListPolicies_loop_pages_error [OF assms]) simp

lemma GetPolicy_scripted_error:
  assumes "\<forall>p \<in> set pages. Next (pager_Parse (fst p)) \<noteq> ''''"
  shows "GetPolicy (scripted_Get dflt) pager_Parse i
           \<lparr>replies = map ok pages @ (h, b, Some e) # rest, requests = l\<rparr> =
         Some ((None, Some e),
               \<lparr>replies = rest,
                requests = l @ map (\<lambda>v. (v, None))
                  (''/alerts_policies.json'' # map (\<lambda>p. Next (pager_Parse (fst p))) pages)\<rparr>)"
  unfolding GetPolicy_def ListPolicies_scripted_error [OF assms]
  by simp

lemma GetPolicy_scripted_found:
  assumes "\<forall>p \<in> set pages. Next (pager_Parse (fst p)) \<noteq> ''''"
      and "Next (pager_Parse (fst final)) = ''''"
      and "find (\<lambda>p. Policy.ID p = i) (policies_of (pages @ [final])) = Some policy"
  shows "GetPolicy (scripted_Get dflt) pager_Parse i
           \<lparr>replies = map ok (pages @ [final]) @ rest, requests = l\<rparr> =
         Some ((Some policy, None),
               \<lparr>replies = rest,
                requests = l @ map (\<lambda>v. (v, None))
                  (''/alerts_policies.json'' # map (\<lambda>p. Next (pager_Parse (fst p))) pages)\<rparr>)"
  unfolding GetPolicy_scripted [OF assms(1,2)] GetPolicy_range_find assms(3)
  by simp

lemma QueryPolicySearch_loop_pages_error:
  assumes "\<forall>r \<in> set pages. NextCursor r \<noteq> None"
  shows "QueryPolicySearch_loop (scripted_Query dflt) accountID params True c (Some acc) h
           \<lparr>replies = map answered pages @ (r, Some e) # rest, requests = l\<rparr> =
         Some ((None, Some e), h @ page_cells pages,
               \<lparr>replies = rest,
                requests = l @ map (\<lambda>k. (alertsPolicyQuerySearch, search_vars accountID k params))
                                 (c # map NextCursor pages)\<rparr>)"
  using assms
proof (induction pages arbitrary: c acc h l)
  case Nil
  then show ?case
    by (simp add: QueryPolicySearch_loop_error page_cells_def)
next
  case (Cons p pages)
  have cursor: "NextCursor p \<noteq> None"
    using Cons.prems(1) by simp
  have rest_ok: "\<forall>q \<in> set pages. NextCursor q \<noteq> None"
    using Cons.prems(1) by simp
  have "QueryPolicySearch_loop (scripted_Query dflt) accountID params True c (Some acc) h
          \<lparr>replies = map answered (p # pages) @ (r, Some e) # rest, requests = l\<rparr> =
        QueryPolicySearch_loop (scripted_Query dflt) accountID params True (NextCursor p)
          (Some (acc @ replicate (len (alertQueryPolicySearchResponse.Policies p)) (length h)))
          (h @ [last (QueryPolicy_zero # elems (alertQueryPolicySearchResponse.Policies p))])
          \<lparr>replies = map answered pages @ (r, Some e) # rest,
           requests = l @ [(alertsPolicyQuerySearch, search_vars accountID c params)]\<rparr>"
    using cursor by (simp add: answered_def QueryPolicySearch_loop_step)
  also have "\<dots> =
        Some ((None, Some e),
              (h @ [last (QueryPolicy_zero # elems (alertQueryPolicySearchResponse.Policies p))]) @
                 page_cells pages,
              \<lparr>replies = rest,
               requests = (l @ [(alertsPolicyQuerySearch, search_vars accountID c params)]) @
                 map (\<lambda>k. (alertsPolicyQuerySearch, search_vars accountID k params))
                   (NextCursor p # map NextCursor pages)\<rparr>)"
    by (rule Cons.IH [OF rest_ok])
  finally show ?case
    by (simp add: page_cells_def)
qed

lemma QueryPolicySearch_scripted_error:
  assumes "\<forall>r \<in> set pages. NextCursor r \<noteq> None"
  shows "QueryPolicySearch (scripted_Query dflt) accountID params h
           \<lparr>replies = map answered pages @ (r, Some e) # rest, requests = l\<rparr> =
         Some ((None, Some e), h @ page_cells pages,
               \<lparr>replies = rest,
                requests = l @ map (\<lambda>k. (alertsPolicyQuerySearch, search_vars accountID k params))
                                 (None # map NextCursor pages)\<rparr>)"
  unfolding QueryPolicySearch_def
  by (rule QueryPolicySearch_loop_pages_error [OF assms])

lemma QueryPolicySearch_scripted:
  assumes "\<forall>r \<in> set pages. NextCursor r \<noteq> None" and "NextCursor final = None"
  shows "QueryPolicySearch (scripted_Query dflt) accountID params h
           \<lparr>replies = map answered (pages @ [final]) @ rest, requests = l\<rparr> =
         Some ((Some (page_pointers (length h) (pages @ [final])), None),
               h @ page_cells (pages @ [final]),
               \<lparr>replies = rest,
                requests = l @ map (\<lambda>k. (alertsPolicyQuerySearch, search_vars accountID k params))
                                 (None # map NextCursor pages)\<rparr>)"
  unfolding QueryPolicySearch_def
  using QueryPolicySearch_loop_pages [OF assms, of dflt accountID params None "[]" h rest l]
  by simp

lemma single_call_methods:
  "fst (CreatePolicy (scripted_Post d_post) policy
          \<lparr>replies = (h, r_post, Some e) # rest_post, requests = log_post\<rparr>) = (None, Some e) \<and>
   fst (CreatePolicy (scripted_Post d_post) policy
          \<lparr>replies = (h, r_post, None) # rest_post, requests = log_post\<rparr>) =
     (Some (alertPolicyResponse.Policy r_post), None) \<and>
   fst (UpdatePolicy (scripted_Post d_post) policy
          \<lparr>replies = (h, r_post, Some e) # rest_post, requests = log_post\<rparr>) = (None, Some e) \<and>
   fst (UpdatePolicy (scripted_Post d_post) policy
          \<lparr>replies = (h, r_post, None) # rest_post, requests = log_post\<rparr>) =
     (Some (alertPolicyResponse.Policy r_post), None) \<and>
   fst (DeletePolicy (scripted_Get d_del) i
          \<lparr>replies = (h, r_post, Some e) # rest_del, requests = log_del\<rparr>) = (None, Some e) \<and>
   fst (DeletePolicy (scripted_Get d_del) i
          \<lparr>replies = (h, r_post, None) # rest_del, requests = log_del\<rparr>) =
     (Some (alertPolicyResponse.Policy r_post), None) \<and>
   fst (CreatePolicyMutation (scripted_Query d_cm) accountID createInput
          \<lparr>replies = (r_cm, Some e) # rest_cm, requests = log_q\<rparr>) = (None, Some e) \<and>
   fst (CreatePolicyMutation (scripted_Query d_cm) accountID createInput
          \<lparr>replies = (r_cm, None) # rest_cm, requests = log_q\<rparr>) =
     (Some (alertQueryPolicyCreateResponse.QueryPolicy r_cm), None) \<and>
   fst (UpdatePolicyMutation (scripted_Query d_um) accountID i updateInput
          \<lparr>replies = (r_um, Some e) # rest_um, requests = log_q\<rparr>) = (None, Some e) \<and>
   fst (UpdatePolicyMutation (scripted_Query d_um) accountID i updateInput
          \<lparr>replies = (r_um, None) # rest_um, requests = log_q\<rparr>) =
     (Some (alertQueryPolicyUpdateResponse.QueryPolicy r_um), None) \<and>
   fst (QueryPolicy (scripted_Query d_qp) accountID i
          \<lparr>replies = (r_qp, Some e) # rest_qp, requests = log_q\<rparr>) = (None, Some e) \<and>
   fst (QueryPolicy (scripted_Query d_qp) accountID i
          \<lparr>replies = (r_qp, None) # rest_qp, requests = log_q\<rparr>) =
     (Some (alertQueryPolicyResponse.Policy r_qp), None) \<and>
   fst (DeletePolicyMutation (scripted_Query d_dm) accountID i
          \<lparr>replies = (r_dm, Some e) # rest_dm, requests = log_q\<rparr>) = (None, Some e) \<and>
   fst (DeletePolicyMutation (scripted_Query d_dm) accountID i
          \<lparr>replies = (r_dm, None) # rest_dm, requests = log_q\<rparr>) = (Some QueryPolicy_zero, None) \<and>
   fst (CreateAPIAccessKeysMutation (scripted_Query d_ck) ckeys
          \<lparr>replies = (r_ck, Some e) # rest_ck, requests = log_k\<rparr>) = (None, Some e) \<and>
   fst (GetAPIAccessKeyMutation (scripted_Query d_gk) get_Error keyID keyType
          \<lparr>replies = (r_gk, Some e) # rest_gk, requests = log_k\<rparr>) = (None, Some e) \<and>
   fst (SearchAPIAccessKeys (scripted_Query d_sk) search_Error ckeys
          \<lparr>replies = (r_sk, Some e) # rest_sk, requests = log_k\<rparr>) = (None, Some e) \<and>
   fst (UpdateAPIAccessKeyMutation (scripted_Query d_uk) ckeys
          \<lparr>replies = (r_uk, Some e) # rest_uk, requests = log_k\<rparr>) = (None, Some e) \<and>
   fst (DeleteAPIAccessKeyMutation (scripted_Query d_dk) ckeys
          \<lparr>replies = (r_dk, Some e) # rest_dk, requests = log_k\<rparr>) = (None, Some e)"
  by (simp add: CreatePolicy_def UpdatePolicy_def DeletePolicy_def CreatePolicyMutation_def
      UpdatePolicyMutation_def QueryPolicy_def DeletePolicyMutation_def
      CreateAPIAccessKeysMutation_def GetAPIAccessKeyMutation_def SearchAPIAccessKeys_def
      UpdateAPIAccessKeyMutation_def DeleteAPIAccessKeyMutation_def
      scripted_Post_Cons scripted_Get_Cons scripted_Query_Cons)

lemma key_methods_succeed:
  "(len (ApiAccessCreateKeyResponse.Errors (APIAccessCreateKeys r_ck)) = 0 \<longrightarrow>
      fst (CreateAPIAccessKeysMutation (scripted_Query d_ck) ckeys
             \<lparr>replies = (r_ck, None) # rest_ck, requests = log_k\<rparr>) =
        (CreatedKeys (APIAccessCreateKeys r_ck), None)) \<and>
   (GraphQLErrorResponse.Errors (apiAccessKeyGetResponse.GraphQLErrorResponse r_gk) = None \<longrightarrow>
      fst (GetAPIAccessKeyMutation (scripted_Query d_gk) get_Error keyID keyType
             \<lparr>replies = (r_gk, None) # rest_gk, requests = log_k\<rparr>) = (Some (Key r_gk), None)) \<and>
   (GraphQLErrorResponse.Errors (apiAccessKeySearchResponse.GraphQLErrorResponse r_sk) = None \<longrightarrow>
      fst (SearchAPIAccessKeys (scripted_Query d_sk) search_Error ckeys
             \<lparr>replies = (r_sk, None) # rest_sk, requests = log_k\<rparr>) = (Keys (KeySearch r_sk), None)) \<and>
   (len (ApiAccessUpdateKeyResponse.Errors (APIAccessUpdateKeys r_uk)) = 0 \<longrightarrow>
      fst (UpdateAPIAccessKeyMutation (scripted_Query d_uk) ckeys
             \<lparr>replies = (r_uk, None) # rest_uk, requests = log_k\<rparr>) =
        (UpdatedKeys (APIAccessUpdateKeys r_uk), None)) \<and>
   (len (ApiAccessDeleteKeyResponse.Errors (APIAccessDeleteKeys r_dk)) = 0 \<longrightarrow>
      fst (DeleteAPIAccessKeyMutation (scripted_Query d_dk) ckeys
             \<lparr>replies = (r_dk, None) # rest_dk, requests = log_k\<rparr>) =
        (DeletedKeys (APIAccessDeleteKeys r_dk), None))"
  by (simp add: CreateAPIAccessKeysMutation_def GetAPIAccessKeyMutation_def
      SearchAPIAccessKeys_def UpdateAPIAccessKeyMutation_def DeleteAPIAccessKeyMutation_def
      scripted_Query_Cons)

text \<open>
  C5. For each client method of the source files: when a transport call returns an error,
  the method returns a nil result and that same error, also when the failing call is a
  later page of \<open>ListPolicies\<close>, \<open>GetPolicy\<close> or \<open>QueryPolicySearch\<close>, whose earlier pages
  are then dropped. When no call fails (and the API reports no error of its own, and
  \<open>GetPolicy\<close> finds a match) the method returns its typed result with a nil error.
\<close>

theorem transport_error_or_result:
  "((\<forall>p \<in> set pages. Next (pager_Parse (fst p)) \<noteq> '''') \<longrightarrow>
      ListPolicies (scripted_Get d_list) pager_Parse params
        \<lparr>replies = map ok pages @ (h, b, Some e) # rest_list, requests = log_list\<rparr> =
      Some ((None, Some e),
            \<lparr>replies = rest_list,
             requests = log_list @ map (\<lambda>v. (v, params))
               (''/alerts_policies.json'' # map (\<lambda>p. Next (pager_Parse (fst p))) pages)\<rparr>)) \<and>
   ((\<forall>p \<in> set pages. Next (pager_Parse (fst p)) \<noteq> '''') \<longrightarrow>
      GetPolicy (scripted_Get d_list) pager_Parse i
        \<lparr>replies = map ok pages @ (h, b, Some e) # rest_list, requests = log_list\<rparr> =
      Some ((None, Some e),
            \<lparr>replies = rest_list,
             requests = log_list @ map (\<lambda>v. (v, None))
               (''/alerts_policies.json'' # map (\<lambda>p. Next (pager_Parse (fst p))) pages)\<rparr>)) \<and>
   ((\<forall>r \<in> set cursor_pages. NextCursor r \<noteq> None) \<longrightarrow>
      QueryPolicySearch (scripted_Query d_qs) accountID criteria heap
        \<lparr>replies = map answered cursor_pages @ (r_qs, Some e) # rest_qs, requests = log_q\<rparr> =
      Some ((None, Some e), heap @ page_cells cursor_pages,
            \<lparr>replies = rest_qs,
             requests = log_q @ map (\<lambda>k. (alertsPolicyQuerySearch, search_vars accountID k criteria))
               (None # map NextCursor cursor_pages)\<rparr>)) \<and>
   ((\<forall>p \<in> set pages. Next (pager_Parse (fst p)) \<noteq> '''') \<and>
    Next (pager_Parse (fst final)) = '''' \<longrightarrow>
      ListPolicies (scripted_Get d_list) pager_Parse params
        \<lparr>replies = map ok (pages @ [final]) @ rest_list, requests = log_list\<rparr> =
      Some ((Some (policies_of (pages @ [final])), None),
            \<lparr>replies = rest_list,
             requests = log_list @ map (\<lambda>v. (v, params))
               (''/alerts_policies.json'' # map (\<lambda>p. Next (pager_Parse (fst p))) pages)\<rparr>)) \<and>
   ((\<forall>p \<in> set pages. Next (pager_Parse (fst p)) \<noteq> '''') \<and>
    Next (pager_Parse (fst final)) = '''' \<and>
    find (\<lambda>p. Policy.ID p = i) (policies_of (pages @ [final])) = Some found \<longrightarrow>
      GetPolicy (scripted_Get d_list) pager_Parse i
        \<lparr>replies = map ok (pages @ [final]) @ rest_list, requests = log_list\<rparr> =
      Some ((Some found, None),
            \<lparr>replies = rest_list,
             requests = log_list @ map (\<lambda>v. (v, None))
               (''/alerts_policies.json'' # map (\<lambda>p. Next (pager_Parse (fst p))) pages)\<rparr>)) \<and>
   ((\<forall>r \<in> set cursor_pages. NextCursor r \<noteq> None) \<and> NextCursor cursor_final = None \<longrightarrow>
      QueryPolicySearch (scripted_Query d_qs) accountID criteria heap
        \<lparr>replies = map answered (cursor_pages @ [cursor_final]) @ rest_qs, requests = log_q\<rparr> =
      Some ((Some (page_pointers (length heap) (cursor_pages @ [cursor_final])), None),
            heap @ page_cells (cursor_pages @ [cursor_final]),
            \<lparr>replies = rest_qs,
             requests = log_q @ map (\<lambda>k. (alertsPolicyQuerySearch, search_vars accountID k criteria))
               (None # map NextCursor cursor_pages)\<rparr>)) \<and>
   (len (ApiAccessCreateKeyResponse.Errors (APIAccessCreateKeys r_ck)) = 0 \<longrightarrow>
      fst (CreateAPIAccessKeysMutation (scripted_Query d_ck) ckeys
             \<lparr>replies = (r_ck, None) # rest_ck, requests = log_k\<rparr>) =
        (CreatedKeys (APIAccessCreateKeys r_ck), None)) \<and>
   (GraphQLErrorResponse.Errors (apiAccessKeyGetResponse.GraphQLErrorResponse r_gk) = None \<longrightarrow>
      fst (GetAPIAccessKeyMutation (scripted_Query d_gk) get_Error keyID keyType
             \<lparr>replies = (r_gk, None) # rest_gk, requests = log_k\<rparr>) = (Some (Key r_gk), None)) \<and>
   (GraphQLErrorResponse.Errors (apiAccessKeySearchResponse.GraphQLErrorResponse r_sk) = None \<longrightarrow>
      fst (SearchAPIAccessKeys (scripted_Query d_sk) search_Error ckeys
             \<lparr>replies = (r_sk, None) # rest_sk, requests = log_k\<rparr>) = (Keys (KeySearch r_sk), None)) \<and>
   (len (ApiAccessUpdateKeyResponse.Errors (APIAccessUpdateKeys r_uk)) = 0 \<longrightarrow>
      fst (UpdateAPIAccessKeyMutation (scripted_Query d_uk) ckeys
             \<lparr>replies = (r_uk, None) # rest_uk, requests = log_k\<rparr>) =
        (UpdatedKeys (APIAccessUpdateKeys r_uk), None)) \<and>
   (len (ApiAccessDeleteKeyResponse.Errors (APIAccessDeleteKeys r_dk)) = 0 \<longrightarrow>
      fst (DeleteAPIAccessKeyMutation (scripted_Query d_dk) ckeys
             \<lparr>replies = (r_dk, None) # rest_dk, requests = log_k\<rparr>) =
        (DeletedKeys (APIAccessDeleteKeys r_dk), None)) \<and>
   fst (CreatePolicy (scripted_Post d_post) policy
          \<lparr>replies = (h, r_post, Some e) # rest_post, requests = log_post\<rparr>) = (None, Some e) \<and>
   fst (CreatePolicy (scripted_Post d_post) policy
          \<lparr>replies = (h, r_post, None) # rest_post, requests = log_post\<rparr>) =
     (Some (alertPolicyResponse.Policy r_post), None) \<and>
   fst (UpdatePolicy (scripted_Post d_post) policy
          \<lparr>replies = (h, r_post, Some e) # rest_post, requests = log_post\<rparr>) = (None, Some e) \<and>
   fst (UpdatePolicy (scripted_Post d_post) policy
          \<lparr>replies = (h, r_post, None) # rest_post, requests = log_post\<rparr>) =
     (Some (alertPolicyResponse.Policy r_post), None) \<and>
   fst (DeletePolicy (scripted_Get d_del) i
          \<lparr>replies = (h, r_post, Some e) # rest_del, requests = log_del\<rparr>) = (None, Some e) \<and>
   fst (DeletePolicy (scripted_Get d_del) i
          \<lparr>replies = (h, r_post, None) # rest_del, requests = log_del\<rparr>) =
     (Some (alertPolicyResponse.Policy r_post), None) \<and>
   fst (CreatePolicyMutation (scripted_Query d_cm) accountID createInput
          \<lparr>replies = (r_cm, Some e) # rest_cm, requests = log_q\<rparr>) = (None, Some e) \<and>
   fst (CreatePolicyMutation (scripted_Query d_cm) accountID createInput
          \<lparr>replies = (r_cm, None) # rest_cm, requests = log_q\<rparr>) =
     (Some (alertQueryPolicyCreateResponse.QueryPolicy r_cm), None) \<and>
   fst (UpdatePolicyMutation (scripted_Query d_um) accountID i updateInput
          \<lparr>replies = (r_um, Some e) # rest_um, requests = log_q\<rparr>) = (None, Some e) \<and>
   fst (UpdatePolicyMutation (scripted_Query d_um) accountID i updateInput
          \<lparr>replies = (r_um, None) # rest_um, requests = log_q\<rparr>) =
     (Some (alertQueryPolicyUpdateResponse.QueryPolicy r_um), None) \<and>
   fst (QueryPolicy (scripted_Query d_qp) accountID i
          \<lparr>replies = (r_qp, Some e) # rest_qp, requests = log_q\<rparr>) = (None, Some e) \<and>
   fst (QueryPolicy (scripted_Query d_qp) accountID i
          \<lparr>replies = (r_qp, None) # rest_qp, requests = log_q\<rparr>) =
     (Some (alertQueryPolicyResponse.Policy r_qp), None) \<and>
   fst (DeletePolicyMutation (scripted_Query d_dm) accountID i
          \<lparr>replies = (r_dm, Some e) # rest_dm, requests = log_q\<rparr>) = (None, Some e) \<and>
   fst (DeletePolicyMutation (scripted_Query d_dm) accountID i
          \<lparr>replies = (r_dm, None) # rest_dm, requests = log_q\<rparr>) = (Some QueryPolicy_zero, None) \<and>
   fst (CreateAPIAccessKeysMutation (scripted_Query d_ck) ckeys
          \<lparr>replies = (r_ck, Some e) # rest_ck, requests = log_k\<rparr>) = (None, Some e) \<and>
   fst (GetAPIAccessKeyMutation (scripted_Query d_gk) get_Error keyID keyType
          \<lparr>replies = (r_gk, Some e) # rest_gk, requests = log_k\<rparr>) = (None, Some e) \<and>
   fst (SearchAPIAccessKeys (scripted_Query d_sk) search_Error ckeys
          \<lparr>replies = (r_sk, Some e) # rest_sk, requests = log_k\<rparr>) = (None, Some e) \<and>
   fst (UpdateAPIAccessKeyMutation (scripted_Query d_uk) ckeys
          \<lparr>replies = (r_uk, Some e) # rest_uk, requests = log_k\<rparr>) = (None, Some e) \<and>
   fst (DeleteAPIAccessKeyMutation (scripted_Query d_dk) ckeys
          \<lparr>replies = (r_dk, Some e) # rest_dk, requests = log_k\<rparr>) = (None, Some e)"
  apply (intro conjI impI)
  subgoal by (erule ListPolicies_scripted_error)
  subgoal by (erule GetPolicy_scripted_error)
  subgoal by (erule QueryPolicySearch_scripted_error)
  subgoal by (elim conjE) (erule (1) ListPolicies_scripted)
  subgoal by (elim conjE) (erule (2) GetPolicy_scripted_found)
  subgoal by (elim conjE) (erule (1) QueryPolicySearch_scripted)
  using key_methods_succeed [of r_ck d_ck ckeys rest_ck log_k r_gk d_gk get_Error keyID keyType rest_gk r_sk d_sk
      search_Error rest_sk r_uk d_uk rest_uk r_dk d_dk rest_dk]
    single_call_methods [of d_post policy h r_post e rest_post log_post d_del i rest_del log_del d_cm accountID createInput r_cm rest_cm log_q
      d_um updateInput r_um rest_um d_qp r_qp rest_qp d_dm r_dm rest_dm d_ck ckeys r_ck rest_ck log_k d_gk get_Error keyID keyType
      r_gk rest_gk d_sk search_Error r_sk rest_sk d_uk r_uk rest_uk d_dk r_dk rest_dk]
  by simp_all

theorem transport_error_or_result_witness:
  "ListPolicies (scripted_Get no_reply) link_pager None
     \<lparr>replies = map ok [page_of ''/next'' [policy_named 1 ''a'']] @
                  [(''503'', \<lparr>alertPoliciesResponse.Policies = None\<rparr>, Some (OtherError ''timeout''))],
      requests = []\<rparr> =
     Some ((None, Some (OtherError ''timeout'')),
           \<lparr>replies = [],
            requests = [(''/alerts_policies.json'', None), (''/next'', None)]\<rparr>) \<and>
   GetPolicy (scripted_Get no_reply) link_pager 2
     \<lparr>replies = map ok [page_of ''/next'' [policy_named 1 ''a'']] @
                  [(''503'', \<lparr>alertPoliciesResponse.Policies = None\<rparr>, Some (OtherError ''timeout''))],
      requests = []\<rparr> =
     Some ((None, Some (OtherError ''timeout'')),
           \<lparr>replies = [],
            requests = [(''/alerts_policies.json'', None), (''/next'', None)]\<rparr>) \<and>
   QueryPolicySearch (scripted_Query no_answer) 1 all_ids []
     \<lparr>replies = map answered [cursor_page (Some ''c1'') [query_policy 1 ''a'']] @
                  [(cursor_page None [], Some (OtherError ''timeout''))],
      requests = []\<rparr> =
     Some ((None, Some (OtherError ''timeout'')), [query_policy 1 ''a''],
           \<lparr>replies = [],
            requests = [(alertsPolicyQuerySearch, search_vars 1 None all_ids),
                        (alertsPolicyQuerySearch, search_vars 1 (Some ''c1'') all_ids)]\<rparr>) \<and>
   ListPolicies (scripted_Get no_reply) link_pager None
     \<lparr>replies = map ok ([page_of ''/next'' [policy_named 1 ''a'']] @
                             [page_of '''' [policy_named 2 ''b'']]) @ [],
      requests = []\<rparr> =
     Some ((Some [policy_named 1 ''a'', policy_named 2 ''b''], None),
           \<lparr>replies = [],
            requests = [(''/alerts_policies.json'', None), (''/next'', None)]\<rparr>) \<and>
   GetPolicy (scripted_Get no_reply) link_pager 2
     \<lparr>replies = map ok ([page_of ''/next'' [policy_named 1 ''a'']] @
                             [page_of '''' [policy_named 2 ''b'']]) @ [],
      requests = []\<rparr> =
     Some ((Some (policy_named 2 ''b''), None),
           \<lparr>replies = [],
            requests = [(''/alerts_policies.json'', None), (''/next'', None)]\<rparr>) \<and>
   QueryPolicySearch (scripted_Query no_answer) 1 all_ids []
     \<lparr>replies = map answered ([cursor_page (Some ''c1'') [query_policy 1 ''a'']] @
                                   [cursor_page None [query_policy 2 ''b'']]) @ [],
      requests = []\<rparr> =
     Some ((Some [0, 1], None), [query_policy 1 ''a'', query_policy 2 ''b''],
           \<lparr>replies = [],
            requests = [(alertsPolicyQuerySearch, search_vars 1 None all_ids),
                        (alertsPolicyQuerySearch, search_vars 1 (Some ''c1'') all_ids)]\<rparr>) \<and>
   fst (CreateAPIAccessKeysMutation (keys_transport (create_reply None None)) ''in''
          \<lparr>replies = [(create_reply (Some [''key1'']) None, None)], requests = []\<rparr>) =
     (Some [''key1''], None) \<and>
   fst (GetAPIAccessKeyMutation (keys_transport (get_reply '''' None)) joined_messages
          ''id1'' ''USER'' \<lparr>replies = [(get_reply ''key1'' None, None)], requests = []\<rparr>) =
     (Some ''key1'', None) \<and>
   fst (SearchAPIAccessKeys (keys_transport (search_reply None None)) joined_messages ''in''
          \<lparr>replies = [(search_reply (Some [''key1'']) None, None)], requests = []\<rparr>) =
     (Some [''key1''], None) \<and>
   fst (UpdateAPIAccessKeyMutation (keys_transport (update_reply None None)) ''in''
          \<lparr>replies = [(update_reply (Some [''key1'']) None, None)], requests = []\<rparr>) =
     (Some [''key1''], None) \<and>
   fst (DeleteAPIAccessKeyMutation (keys_transport (delete_reply None None)) ''in''
          \<lparr>replies = [(delete_reply (Some [''id1'']) None, None)], requests = []\<rparr>) =
     (Some [''id1''], None)"
  using transport_error_or_result
    [where pages = "[page_of ''/next'' [policy_named 1 ''a'']]" and pager_Parse = link_pager
       and d_list = no_reply and params = None and h = "''503''"
       and b = "\<lparr>alertPoliciesResponse.Policies = None\<rparr>" and e = "OtherError ''timeout''"
       and rest_list = "[]" and log_list = "[]" and i = 2
       and final = "page_of '''' [policy_named 2 ''b'']" and found = "policy_named 2 ''b''"
       and cursor_pages = "[cursor_page (Some ''c1'') [query_policy 1 ''a'']]"
       and cursor_final = "cursor_page None [query_policy 2 ''b'']"
       and d_qs = no_answer and accountID = 1 and criteria = all_ids and heap = "[]"
       and r_qs = "cursor_page None []" and rest_qs = "[]" and log_q = "[]"
       and r_ck = "create_reply (Some [''key1'']) None"
       and d_ck = "(create_reply None None, Some (OtherError ''no reply''))"
       and ckeys = "''in''" and rest_ck = "[]"
       and log_k = "[] :: (apiaccess_query \<times> (string \<rightharpoonup> (string, string) apiaccess_var)) list"
       and r_gk = "get_reply ''key1'' None"
       and d_gk = "(get_reply '''' None, Some (OtherError ''no reply''))"
       and get_Error = joined_messages and keyID = "''id1''" and keyType = "''USER''"
       and rest_gk = "[]"
       and r_sk = "search_reply (Some [''key1'']) None"
       and d_sk = "(search_reply None None, Some (OtherError ''no reply''))"
       and search_Error = joined_messages and rest_sk = "[]"
       and r_uk = "update_reply (Some [''key1'']) None"
       and d_uk = "(update_reply None None, Some (OtherError ''no reply''))" and rest_uk = "[]"
       and r_dk = "delete_reply (Some [''id1'']) None"
       and d_dk = "(delete_reply None None, Some (OtherError ''no reply''))" and rest_dk = "[]"
       and d_post = "('''', \<lparr>alertPolicyResponse.Policy = policy_named 0 ''''\<rparr>,
                      Some (OtherError ''no reply''))"
       and policy = "policy_named 0 ''cpu''"
       and r_post = "\<lparr>alertPolicyResponse.Policy = policy_named 42 ''cpu''\<rparr>"
       and rest_post = "[]"
       and log_post = "[] :: (string \<times> unit option \<times> alertPolicyRequestBody) list"
       and d_del = "('''', \<lparr>alertPolicyResponse.Policy = policy_named 0 ''''\<rparr>,
                     Some (OtherError ''no reply''))"
       and rest_del = "[]" and log_del = "[] :: (string \<times> unit option) list"
       and d_cm = "(\<lparr>alertQueryPolicyCreateResponse.QueryPolicy = QueryPolicy_zero\<rparr>,
                    Some (OtherError ''no reply''))"
       and createInput = "\<lparr>QueryPolicyCreateInput.QueryPolicyInput =
                            \<lparr>QueryPolicyInput.IncidentPreference = ''PER_POLICY'',
                             QueryPolicyInput.Name = ''cpu''\<rparr>\<rparr>"
       and r_cm = "\<lparr>alertQueryPolicyCreateResponse.QueryPolicy = query_policy 1 ''cpu''\<rparr>"
       and rest_cm = "[]"
       and d_um = "(\<lparr>alertQueryPolicyUpdateResponse.QueryPolicy = QueryPolicy_zero\<rparr>,
                    Some (OtherError ''no reply''))"
       and updateInput = "\<lparr>QueryPolicyUpdateInput.QueryPolicyInput =
                            \<lparr>QueryPolicyInput.IncidentPreference = ''PER_POLICY'',
                             QueryPolicyInput.Name = ''disk''\<rparr>\<rparr>"
       and r_um = "\<lparr>alertQueryPolicyUpdateResponse.QueryPolicy = query_policy 1 ''disk''\<rparr>"
       and rest_um = "[]"
       and d_qp = "(\<lparr>alertQueryPolicyResponse.Policy = QueryPolicy_zero\<rparr>,
                    Some (OtherError ''no reply''))"
       and r_qp = "\<lparr>alertQueryPolicyResponse.Policy = query_policy 1 ''cpu''\<rparr>"
       and rest_qp = "[]"
       and d_dm = "(\<lparr>AlertsPolicyDelete_ID = 0\<rparr>, Some (OtherError ''no reply''))"
       and r_dm = "\<lparr>AlertsPolicyDelete_ID = 2\<rparr>" and rest_dm = "[]"]
  by (simp add: page_of_def link_pager_def policies_of_def elems_def len_def policy_named_def
      cursor_page_def page_cells_def answered_def keys_transport_def
      create_reply_def get_reply_def search_reply_def update_reply_def delete_reply_def)

end
